theory Spec2Isabelle
  imports Complex_Main "HOL-Library.Word" "HOL-Library.Monad_Syntax"
begin

section \<open>Numbers\<close>

text \<open>
  JavaScript numbers are modelled as reals: arithmetic is exact, so IEEE-754 rounding,
  overflow and NaN inputs are outside the model. Arrays of numbers that the code reads
  by fixed index (\<^verbatim>\<open>[x, y]\<close> coordinates, \<^verbatim>\<open>THREE.Vector3\<close>) are typed by their
  components. A non-finite number arises from finite inputs in two places only: a
  division whose divisor the code does not guard, and arithmetic on the \<^verbatim>\<open>undefined\<close>
  components of a value that is not a coordinate array; such results are \<open>jsnum\<close>s. The
  one property that is about rounding itself, the sum of the weights, is examined on a
  second definition of the triangle weights in which every operation rounds to a
  double.
\<close>

datatype jsnum = Fin real | PosInfinity | NegInfinity | NaN

definition js_div :: "real \<Rightarrow> real \<Rightarrow> jsnum" where
  "js_div a b =
     (if b \<noteq> 0 then Fin (a / b)
      else if a = 0 then NaN
      else if 0 < a then PosInfinity else NegInfinity)"

section \<open>SemanticTriangle: barycentric coordinates in the plane\<close>

type_synonym point2 = "real \<times> real"

text \<open>
  \<^verbatim>\<open>calculateBarycentricCoordinates(point, vertices)\<close> of documentSearch.js (class
  SemanticTriangle). \<open>None\<close> is a null or undefined argument. With typed arguments
  nothing inside the \<^verbatim>\<open>try\<close> block can throw, so the \<^verbatim>\<open>catch\<close> branch (which returns
  the same default) is never taken.
\<close>

definition calculateBarycentricCoordinates :: "point2 option \<Rightarrow> point2 list option \<Rightarrow> real list" where
  "calculateBarycentricCoordinates point vertices =
     (if point = None \<or> vertices = None \<or> length (the vertices) \<noteq> 3
      then [33/100, 33/100, 34/100]
      else
        (let p = the point;
             v1 = the vertices ! 0; v2 = the vertices ! 1; v3 = the vertices ! 2;
             denominator = (snd v2 - snd v3) * (fst v1 - fst v3) + (fst v3 - fst v2) * (snd v1 - snd v3)
         in if \<bar>denominator\<bar> < 1/10000
            then [33/100, 33/100, 34/100]
            else
              (let w1 = ((snd v2 - snd v3) * (fst p - fst v3) + (fst v3 - fst v2) * (snd p - snd v3)) / denominator;
                   w2 = ((snd v3 - snd v1) * (fst p - fst v3) + (fst v1 - fst v3) * (snd p - snd v3)) / denominator;
                   w3 = 1 - w1 - w2
               in [w1, w2, w3])))"

text \<open>\<^verbatim>\<open>isPointInside(point, vertices)\<close>: all three weights between 0 and 1.\<close>

definition isPointInside :: "point2 option \<Rightarrow> point2 list option \<Rightarrow> bool" where
  "isPointInside point vertices =
     (let ws = calculateBarycentricCoordinates point vertices;
          w1 = ws ! 0; w2 = ws ! 1; w3 = ws ! 2
      in w1 \<ge> 0 \<and> w2 \<ge> 0 \<and> w3 \<ge> 0 \<and> w1 \<le> 1 \<and> w2 \<le> 1 \<and> w3 \<le> 1)"

text \<open>The determinant the code tests against \<^verbatim>\<open>0.0001\<close>.\<close>

definition denominator2 :: "point2 \<Rightarrow> point2 \<Rightarrow> point2 \<Rightarrow> real" where
  "denominator2 v1 v2 v3 =
     (snd v2 - snd v3) * (fst v1 - fst v3) + (fst v3 - fst v2) * (snd v1 - snd v3)"

section \<open>The triangle weights in double precision\<close>











section \<open>Tetrahedron: barycentric coordinates in space\<close>

datatype Vector3 = Vector3 (vx: real) (vy: real) (vz: real)

text \<open>The three.js operations the code calls, on the components.\<close>

definition subVectors :: "Vector3 \<Rightarrow> Vector3 \<Rightarrow> Vector3" where
  "subVectors a b = Vector3 (vx a - vx b) (vy a - vy b) (vz a - vz b)"

definition crossVectors :: "Vector3 \<Rightarrow> Vector3 \<Rightarrow> Vector3" where
  "crossVectors a b =
     Vector3 (vy a * vz b - vz a * vy b) (vz a * vx b - vx a * vz b) (vx a * vy b - vy a * vx b)"

definition dot :: "Vector3 \<Rightarrow> Vector3 \<Rightarrow> real" where
  "dot a b = vx a * vx b + vy a * vy b + vz a * vz b"

text \<open>
  \<^verbatim>\<open>calculateBarycentricCoordinates3D(point, vertices)\<close>. The signed \<^verbatim>\<open>volume\<close> of the
  tetrahedron is computed by the code and never used; \<open>volume3D\<close> below is that value.
\<close>

definition volume3D :: "Vector3 list \<Rightarrow> real" where
  "volume3D vertices =
     (let v0 = subVectors (vertices ! 1) (vertices ! 0);
          v1 = subVectors (vertices ! 2) (vertices ! 0);
          v2 = subVectors (vertices ! 3) (vertices ! 0)
      in dot (crossVectors v0 v1) v2 / 6)"

definition calculateBarycentricCoordinates3D :: "Vector3 \<Rightarrow> Vector3 list \<Rightarrow> jsnum list" where
  "calculateBarycentricCoordinates3D point vertices =
     (if length vertices \<noteq> 4 then [Fin 0, Fin 0, Fin 0, Fin 0]
      else
        (let vp0 = subVectors point (vertices ! 1);
             vp1 = subVectors point (vertices ! 2);
             vp2 = subVectors point (vertices ! 3);
             volume0 = \<bar>dot (crossVectors vp0 vp1) vp2\<bar> / 6;
             v00 = subVectors (vertices ! 0) point;
             v01 = subVectors (vertices ! 2) point;
             v02 = subVectors (vertices ! 3) point;
             volume1 = \<bar>dot (crossVectors v00 v01) v02\<bar> / 6;
             v10 = subVectors (vertices ! 0) point;
             v11 = subVectors (vertices ! 1) point;
             v12 = subVectors (vertices ! 3) point;
             volume2 = \<bar>dot (crossVectors v10 v11) v12\<bar> / 6;
             v20 = subVectors (vertices ! 0) point;
             v21 = subVectors (vertices ! 1) point;
             v22 = subVectors (vertices ! 2) point;
             volume3 = \<bar>dot (crossVectors v20 v21) v22\<bar> / 6;
             totalVolume = volume0 + volume1 + volume2 + volume3
         in [js_div volume0 totalVolume, js_div volume1 totalVolume,
             js_div volume2 totalVolume, js_div volume3 totalVolume]))"

section \<open>Documents and embeddings (embeddingService.js)\<close>

text \<open>
  A document object, with the properties the semantic code reads. A property that is
  missing, \<^verbatim>\<open>undefined\<close> or the empty string is falsy in JavaScript; for the three
  string properties the empty string stands for all of these. \<open>doc_embedding = None\<close> is a
  missing embedding (an array, even an empty one, is truthy).
\<close>

record document =
  doc_id :: string
  doc_title :: string
  doc_content :: string
  doc_embedding :: "real list option"

datatype exn = Error string | TypeError string

text \<open>
  Strings are modelled as lists of characters of one byte, so the model covers ASCII
  content. \<^verbatim>\<open>String.prototype.toLowerCase\<close> on the ASCII letters:
\<close>

definition toLowerCase_char :: "char \<Rightarrow> char" where
  "toLowerCase_char c =
     (let n = of_char c :: nat in if 65 \<le> n \<and> n \<le> 90 then char_of (n + 32) else c)"

definition toLowerCase :: "string \<Rightarrow> string" where
  "toLowerCase s = map toLowerCase_char s"

text \<open>
  \<^verbatim>\<open>(content.match(new RegExp(keyword, 'g')) || []).length\<close> for a keyword of plain
  letters: the number of matches found from left to right, each search resuming after
  the previous match. \<open>skip\<close> counts the characters of the last match still to pass.
\<close>

fun is_prefix :: "string \<Rightarrow> string \<Rightarrow> bool" where
  "is_prefix [] _ = True"
| "is_prefix (k # ks) [] = False"
| "is_prefix (k # ks) (c # cs) = (k = c \<and> is_prefix ks cs)"

fun count_matches :: "string \<Rightarrow> nat \<Rightarrow> string \<Rightarrow> nat" where
  "count_matches keyword skip [] = 0"
| "count_matches keyword skip (c # cs) =
     (if 0 < skip then count_matches keyword (skip - 1) cs
      else if is_prefix keyword (c # cs) then 1 + count_matches keyword (length keyword - 1) cs
      else count_matches keyword 0 cs)"

definition commonKeywords :: "string list" where
  "commonKeywords =
     [''art'', ''science'', ''history'', ''technology'', ''philosophy'', ''mathematics'',
      ''data'', ''research'', ''analysis'', ''theory'', ''design'', ''system'', ''method'',
      ''knowledge'', ''information'', ''concept'', ''structure'', ''function'', ''development'',
      ''application'', ''process'', ''model'', ''problem'', ''solution'']"

text \<open>
  \<^verbatim>\<open>simpleHash\<close>: \<^verbatim>\<open>hash = ((hash << 5) - hash) + char; hash |= 0\<close> keeps the low 32 bits
  of the sum, which a 32-bit word does by itself.
\<close>

definition simpleHash :: "string \<Rightarrow> 32 word" where
  "simpleHash str = foldl (\<lambda>hash c. (push_bit 5 hash - hash) + of_nat (of_char c)) 0 str"

text \<open>The inner loop over \<^verbatim>\<open>j < 5\<close> of one keyword: five consecutive cells, modulo the length.\<close>

definition add_keyword :: "real list \<Rightarrow> nat \<Rightarrow> real \<Rightarrow> real list" where
  "add_keyword embedding i count =
     foldl (\<lambda>e j. let index = (i * 5 + j) mod length e in e[index := count * (1/10) + e ! index])
       embedding [0 ..< 5]"

definition generateEmbedding :: "document option \<Rightarrow> real list" where
  "generateEmbedding document =
     (case document of
        None \<Rightarrow> replicate 128 0
      | Some d \<Rightarrow>
          if doc_content d = [] then replicate 128 0
          else
            (let content = toLowerCase (doc_content d);
                 e0 = foldl (\<lambda>e (i, keyword). add_keyword e i (real (count_matches keyword 0 content)))
                        (replicate 128 0) (enumerate 0 commonKeywords);
                 hashValue = simpleHash content;
                 e1 = e0[1 := real (unat (and hashValue 255)) / 255];
                 e2 = e1[2 := real (unat (and (drop_bit 8 hashValue) 255)) / 255];
                 embedding = e2[0 := min 1 (real (length content) * (1/10000))];
                 magnitude = sqrt (foldl (\<lambda>sum val. sum + val * val) 0 embedding)
             in if magnitude > 0 then map (\<lambda>val. val / magnitude) embedding else embedding))"

text \<open>
  \<^verbatim>\<open>calculateSimilarity(vec1, vec2)\<close>: the three accumulators of the loop, then the
  cosine moved from \<open>[-1, 1]\<close> to \<open>[0, 1]\<close>.
\<close>

definition dotProduct :: "real list \<Rightarrow> real list \<Rightarrow> real" where
  "dotProduct vec1 vec2 = foldl (\<lambda>acc (a, b). acc + a * b) 0 (zip vec1 vec2)"

definition calculateSimilarity :: "real list \<Rightarrow> real list \<Rightarrow> real" where
  "calculateSimilarity vec1 vec2 =
     (if length vec1 \<noteq> length vec2 then 0
      else
        (let dotP = dotProduct vec1 vec2;
             normA = dotProduct vec1 vec1;
             normB = dotProduct vec2 vec2
         in if normA = 0 \<or> normB = 0 then 0
            else (let similarity = dotP / (sqrt normA * sqrt normB) in (similarity + 1) / 2)))"

section \<open>SemanticTriangle: construction, classification, semantics (documentSearch.js)\<close>

text \<open>A JavaScript array read \<^verbatim>\<open>xs[i]\<close>: \<open>None\<close> is \<^verbatim>\<open>undefined\<close>, out of range.\<close>

definition js_nth :: "'a list \<Rightarrow> nat \<Rightarrow> 'a option" where
  "js_nth xs i = (if i < length xs then Some (xs ! i) else None)"

text \<open>Decimal digits of an array index, for the template strings.\<close>

fun string_of_nat :: "nat \<Rightarrow> string" where
  "string_of_nat n =
     (if n < 10 then [char_of (48 + n)]
      else string_of_nat (n div 10) @ [char_of (48 + n mod 10)])"

fun join :: "string list \<Rightarrow> string \<Rightarrow> string" where
  "join [] sep = []"
| "join [s] sep = s"
| "join (s # t # ts) sep = s @ sep @ join (t # ts) sep"

record SemanticTriangle =
  vertices :: "document list"
  embeddings :: "real list list"
  tri_id :: string

text \<open>The constructor: \<open>None\<close> is a null or undefined document.\<close>

definition new_SemanticTriangle ::
  "document option \<Rightarrow> document option \<Rightarrow> document option \<Rightarrow> exn + SemanticTriangle" where
  "new_SemanticTriangle docA docB docC =
     (case (docA, docB, docC) of
        (Some a, Some b, Some c) \<Rightarrow>
          if doc_id a = [] \<or> doc_id b = [] \<or> doc_id c = []
          then Inl (Error ''Invalid documents for triangle creation'')
          else Inr \<lparr>vertices = [a, b, c],
                    embeddings = map (\<lambda>doc. case doc_embedding doc of
                                               Some e \<Rightarrow> e
                                             | None \<Rightarrow> generateEmbedding (Some doc)) [a, b, c],
                    tri_id = ''triangle-'' @ doc_id a @ ''-'' @ doc_id b @ ''-'' @ doc_id c\<rparr>
      | _ \<Rightarrow> Inl (Error ''Invalid documents for triangle creation''))"

record setOperation =
  op_type :: string
  description :: string
  conceptual :: string

text \<open>
  The result object of the semantic analysis. \<open>'n\<close> is the type of its numbers: \<open>real\<close>
  where they are finite, \<open>jsnum\<close> where NaN can occur.
\<close>

record 'n contribution =
  c_id :: string
  c_title :: string
  weight :: "'n option"
  similarity :: "'n option"

record 'n semantics =
  contributions :: "'n contribution list"
  combinedEmbedding :: "'n list"
  setOperation :: setOperation

definition HIGH :: real where "HIGH = 6/10"
definition MEDIUM :: real where "MEDIUM = 3/10"
definition LOW :: real where "LOW = 1/10"

text \<open>\<^verbatim>\<open>Math.max(...weights)\<close> and \<^verbatim>\<open>Math.min(...weights)\<close> of a non-empty array.\<close>

definition Math_max :: "real list \<Rightarrow> real" where
  "Math_max ws = fold max (tl ws) (hd ws)"

definition Math_min :: "real list \<Rightarrow> real" where
  "Math_min ws = fold min (tl ws) (hd ws)"

fun indexOf :: "real list \<Rightarrow> real \<Rightarrow> int" where
  "indexOf [] v = -1"
| "indexOf (x # xs) v =
     (if x = v then 0 else (let r = indexOf xs v in if r = -1 then -1 else r + 1))"

text \<open>
  \<^verbatim>\<open>titles[i]\<close> inside a template string (\<^verbatim>\<open>undefined\<close> prints as such) and as an
  element of \<^verbatim>\<open>join\<close> (\<^verbatim>\<open>undefined\<close> joins as the empty string).
\<close>

definition template_title :: "string list \<Rightarrow> int \<Rightarrow> string" where
  "template_title titles i =
     (if 0 \<le> i \<and> nat i < length titles then titles ! nat i else ''undefined'')"

definition joined_title :: "string list \<Rightarrow> nat \<Rightarrow> string" where
  "joined_title titles i = (if i < length titles then titles ! i else [])"

definition titles_of :: "SemanticTriangle \<Rightarrow> string list" where
  "titles_of t = map (\<lambda>doc. if doc_title doc \<noteq> [] then doc_title doc else doc_id doc) (vertices t)"

text \<open>
  \<^verbatim>\<open>weights.map((w, i) => ({weight: w, index: i})).sort((a, b) => b.weight - a.weight)\<close>:
  a stable sort by decreasing weight.
\<close>

definition sortedIndices :: "real list \<Rightarrow> (real \<times> nat) list" where
  "sortedIndices weights = sort_key (\<lambda>(w, i). - w) (zip weights [0 ..< length weights])"

definition complex_weighted_combination :: setOperation where
  "complex_weighted_combination =
     \<lparr>op_type = ''complex_weighted_combination'',
      description = ''Complex combination of all documents'',
      conceptual = ''This point represents a nuanced mix of concepts from all three documents in varying degrees.''\<rparr>"

definition paired_intersection :: "string list \<Rightarrow> nat \<Rightarrow> nat \<Rightarrow> setOperation" where
  "paired_intersection titles i1 i2 =
     \<lparr>op_type = ''paired_intersection'',
      description = ''Intersection of '' @ template_title titles (int i1) @ '' and '' @ template_title titles (int i2),
      conceptual = ''This point represents concepts shared between two documents with little influence from the third.''\<rparr>"

text \<open>
  \<^verbatim>\<open>interpretAsSetOperations(weights)\<close>. Reading \<^verbatim>\<open>.weight\<close> of a missing entry of
  \<^verbatim>\<open>sortedIndices\<close> throws a TypeError; the conjunction is evaluated left to right and
  stops at the first false conjunct.
\<close>

definition interpretAsSetOperations :: "SemanticTriangle \<Rightarrow> real list \<Rightarrow> exn + setOperation" where
  "interpretAsSetOperations t weights =
     (let titles = titles_of t in
      if (\<forall>w \<in> set weights. w \<ge> LOW \<and> w \<le> HIGH) \<and>
         (weights = [] \<or> Math_max weights - Math_min weights < 3/10)
      then Inr \<lparr>op_type = ''balanced_intersection'',
                description = ''Balanced intersection of all three documents: '' @ join titles '', '',
                conceptual = ''This point represents concepts that appear in all three documents with similar importance.''\<rparr>
      else
        (let maxIndex = indexOf weights (Math_max weights) in
         if (case (if 0 \<le> maxIndex then js_nth weights (nat maxIndex) else None) of
               None \<Rightarrow> False | Some w \<Rightarrow> w \<ge> HIGH)
         then
           (let otherIndices = filter (\<lambda>i. int i \<noteq> maxIndex \<and> weights ! i \<ge> LOW) [0 ..< length weights] in
            if length otherIndices = 0
            then Inr \<lparr>op_type = ''single_document'',
                      description = ''Primarily '' @ template_title titles maxIndex @ '' concepts'',
                      conceptual = ''This point closely resembles a single document with minimal influence from others.''\<rparr>
            else
              (let otherTitles = map (joined_title titles) otherIndices in
               Inr \<lparr>op_type = ''dominant_with_influence'',
                    description = template_title titles maxIndex @ '' with influence from '' @ join otherTitles '' and '',
                    conceptual = ''This point represents a dominant document modified by specific features from others.''\<rparr>))
         else
           (let sorted = sortedIndices weights in
            case js_nth sorted 0 of
              None \<Rightarrow> Inl (TypeError ''sortedIndices[0] is undefined'')
            | Some s0 \<Rightarrow>
                if \<not> fst s0 \<ge> MEDIUM then Inr complex_weighted_combination
                else
                  (case js_nth sorted 1 of
                     None \<Rightarrow> Inl (TypeError ''sortedIndices[1] is undefined'')
                   | Some s1 \<Rightarrow>
                       if \<not> fst s1 \<ge> MEDIUM then Inr complex_weighted_combination
                       else
                         (case js_nth sorted 2 of
                            None \<Rightarrow> Inl (TypeError ''sortedIndices[2] is undefined'')
                          | Some s2 \<Rightarrow>
                              if fst s2 < LOW then Inr (paired_intersection titles (snd s0) (snd s1))
                              else Inr complex_weighted_combination)))))"

text \<open>
  The \<^verbatim>\<open>contributions\<close> array every return of \<^verbatim>\<open>getInteriorPointSemantics\<close> builds from
  \<^verbatim>\<open>this.vertices\<close>; \<open>w\<close> and \<open>s\<close> give the weight and similarity of entry \<open>i\<close>.
\<close>

definition make_contributions ::
  "SemanticTriangle \<Rightarrow> (nat \<Rightarrow> 'n option) \<Rightarrow> (nat \<Rightarrow> 'n option) \<Rightarrow> 'n contribution list" where
  "make_contributions t w s =
     map (\<lambda>(i, doc).
            \<lparr>c_id = (if doc_id doc \<noteq> [] then doc_id doc else ''unknown-'' @ string_of_nat i),
             c_title = (if doc_title doc \<noteq> [] then doc_title doc
                        else if doc_id doc \<noteq> [] then doc_id doc
                        else ''Unknown Document '' @ string_of_nat i),
             weight = w i,
             similarity = s i\<rparr>)
         (enumerate 0 (vertices t))"

definition failed_semantics ::
  "SemanticTriangle \<Rightarrow> string \<Rightarrow> string \<Rightarrow> string \<Rightarrow> real semantics" where
  "failed_semantics t ty descr concept =
     \<lparr>contributions = make_contributions t (\<lambda>i. Some (1/3)) (\<lambda>i. Some (1/2)),
      combinedEmbedding = [],
      setOperation = \<lparr>op_type = ty, description = descr, conceptual = concept\<rparr>\<rparr>"

text \<open>The two nested loops that accumulate the weighted embeddings.\<close>

definition combine :: "real list \<Rightarrow> real list list \<Rightarrow> nat \<Rightarrow> real list" where
  "combine normalizedWeights embs embeddingLength =
     foldl (\<lambda>combined i. map (\<lambda>j. combined ! j + normalizedWeights ! i * (embs ! i) ! j) [0 ..< length combined])
       (replicate embeddingLength 0) [0 ..< length embs]"

text \<open>
  \<^verbatim>\<open>getInteriorPointSemantics(weights)\<close>: the body of the \<^verbatim>\<open>try\<close> block, then the method
  with its \<^verbatim>\<open>catch\<close>. The weights are an array of numbers.
\<close>

definition getInteriorPointSemantics_try ::
  "SemanticTriangle \<Rightarrow> real list \<Rightarrow> exn + real semantics" where
  "getInteriorPointSemantics_try t weights =
     (if length weights \<noteq> 3 \<or> length (embeddings t) \<noteq> 3
      then Inr (failed_semantics t ''unknown'' ''Could not determine semantic relationship''
                  ''Analysis failed due to invalid data'')
      else
        (let sum = foldl (\<lambda>acc w. acc + w) 0 weights in
         if \<bar>sum\<bar> < 1/10000
         then Inr (failed_semantics t ''unknown'' ''Could not determine semantic relationship''
                     ''Analysis failed due to invalid weights'')
         else
           (let normalizedWeights = map (\<lambda>w. w / sum) weights;
                embeddingLength = length (embeddings t ! 0)
            in if embeddingLength = 0 \<or> (\<exists>e \<in> set (embeddings t). length e \<noteq> embeddingLength)
               then Inr \<lparr>contributions = make_contributions t (js_nth normalizedWeights) (\<lambda>i. Some (1/2)),
                         combinedEmbedding = [],
                         setOperation =
                           \<lparr>op_type = ''unknown'',
                            description = ''Could not determine semantic relationship'',
                            conceptual = ''Analysis failed due to inconsistent embedding dimensions''\<rparr>\<rparr>
               else
                 (let combined = combine normalizedWeights (embeddings t) embeddingLength in
                  case interpretAsSetOperations t normalizedWeights of
                    Inl e \<Rightarrow> Inl e
                  | Inr setOp \<Rightarrow>
                      (let similarities = map (\<lambda>embedding. calculateSimilarity combined embedding) (embeddings t) in
                       Inr \<lparr>contributions = make_contributions t (js_nth normalizedWeights) (js_nth similarities),
                            combinedEmbedding = combined,
                            setOperation = setOp\<rparr>)))))"

definition getInteriorPointSemantics ::
  "SemanticTriangle \<Rightarrow> real list \<Rightarrow> exn + real semantics" where
  "getInteriorPointSemantics t weights =
     (case getInteriorPointSemantics_try t weights of
        Inr r \<Rightarrow> Inr r
      | Inl e \<Rightarrow> Inr (failed_semantics t ''error'' ''Error analyzing semantic relationship''
                        ''Analysis failed due to an error''))"

section \<open>SemanticTessellation (SemanticTessellation.js)\<close>

text \<open>
  The d3-delaunay library is not part of the repository. Of a \<^verbatim>\<open>Delaunay\<close> object the
  class reads the index array \<^verbatim>\<open>triangles\<close> and calls \<^verbatim>\<open>find(x, y)\<close>; both are fields
  of the model's object, and \<^verbatim>\<open>Delaunay.from\<close> is a parameter of the builder (it may
  throw).
\<close>

record delaunay =
  d_triangles :: "nat list"
  d_find :: "real \<Rightarrow> real \<Rightarrow> int"

text \<open>
  The \<^verbatim>\<open>coordinates\<close> argument is a plain object. Its own properties map a document id
  to an \<^verbatim>\<open>[x, y]\<close> array, typed as a pair. The read \<^verbatim>\<open>this.coordinates[doc.id]\<close> looks
  among the own properties first and then in \<^verbatim>\<open>Object.prototype\<close>, so an id that names
  a member of \<^verbatim>\<open>Object.prototype\<close> yields that member: a function, or for \<^verbatim>\<open>__proto__\<close> the
  prototype object. \<open>object_prototype\<close> lists the members with their \<^verbatim>\<open>length\<close> property
  (the number of parameters of a function; \<open>None\<close> where it is undefined). Every such
  value is truthy; reading its index 0 or 1 yields \<^verbatim>\<open>undefined\<close>.
\<close>

datatype coord_value = Point point2 | Member string

definition object_prototype :: "(string \<times> nat option) list" where
  "object_prototype =
     [(''constructor'', Some 1), (''__defineGetter__'', Some 2), (''__defineSetter__'', Some 2),
      (''hasOwnProperty'', Some 1), (''__lookupGetter__'', Some 1), (''__lookupSetter__'', Some 1),
      (''isPrototypeOf'', Some 1), (''propertyIsEnumerable'', Some 1), (''toString'', Some 0),
      (''valueOf'', Some 0), (''toLocaleString'', Some 0), (''__proto__'', None)]"

definition coordinate_lookup :: "(string \<rightharpoonup> point2) \<Rightarrow> string \<Rightarrow> coord_value option" where
  "coordinate_lookup coords name =
     (case coords name of
        Some p \<Rightarrow> Some (Point p)
      | None \<Rightarrow> (case map_of object_prototype name of
                    Some l \<Rightarrow> Some (Member name)
                  | None \<Rightarrow> None))"

text \<open>\<^verbatim>\<open>point.length\<close> of a value the lookup returned.\<close>

definition coordinate_length :: "coord_value \<Rightarrow> nat option" where
  "coordinate_length v =
     (case v of
        Point p \<Rightarrow> Some 2
      | Member name \<Rightarrow> (case map_of object_prototype name of Some l \<Rightarrow> l | None \<Rightarrow> None))"

definition point_of :: "coord_value \<Rightarrow> point2 option" where
  "point_of v = (case v of Point p \<Rightarrow> Some p | Member name \<Rightarrow> None)"

type_synonym delaunay_from = "coord_value list \<Rightarrow> exn + delaunay"

text \<open>
  The fields the constructor assigns. \<open>documents\<close> may hold null entries (\<open>None\<close>);
  \<open>coordinates\<close> is null by default and otherwise holds the own properties of the
  coordinates object. The \<^verbatim>\<open>pointToDocumentMap\<close> is keyed by the printed point
  (\<^verbatim>\<open>point.toString()\<close>), which the value determines.
\<close>

record SemanticTessellation =
  documents :: "document option list"
  coordinates :: "(string \<rightharpoonup> point2) option"
  triangles :: "SemanticTriangle list"
  delaunay :: "delaunay option"
  voronoi :: "unit option"
  pointToDocumentMap :: "coord_value \<rightharpoonup> document"
  initialized :: bool
  useManualTriangulation :: bool

definition new_SemanticTessellation ::
  "document option list \<Rightarrow> (string \<rightharpoonup> point2) option \<Rightarrow> SemanticTessellation" where
  "new_SemanticTessellation docs coords =
     \<lparr>documents = docs, coordinates = coords, triangles = [], delaunay = None, voronoi = None,
      pointToDocumentMap = Map.empty, initialized = False, useManualTriangulation = False\<rparr>"

text \<open>
  Reading the property \<^verbatim>\<open>reason\<close> of a tessellation object. No statement of the class
  assigns such a property, so the read yields \<^verbatim>\<open>undefined\<close>.
\<close>

definition reason :: "SemanticTessellation \<Rightarrow> string option" where
  "reason t = None"

text \<open>The filter \<^verbatim>\<open>doc && doc.id && this.coordinates[doc.id]\<close>.\<close>

definition valid_document :: "(string \<rightharpoonup> point2) \<Rightarrow> document option \<Rightarrow> bool" where
  "valid_document coords d =
     (case d of
        None \<Rightarrow> False
      | Some doc \<Rightarrow> doc_id doc \<noteq> [] \<and> coordinate_lookup coords (doc_id doc) \<noteq> None)"

text \<open>
  The \<^verbatim>\<open>forEach\<close> loop over the valid documents: a document is skipped when its point
  is missing or \<^verbatim>\<open>point.length !== 2\<close>; the others give the \<^verbatim>\<open>points\<close> array and the
  entries of the \<^verbatim>\<open>pointToDocumentMap\<close>, in order.
\<close>

definition placed_points ::
  "(string \<rightharpoonup> point2) \<Rightarrow> document option list \<Rightarrow> (coord_value \<times> document) list" where
  "placed_points coords docs =
     List.map_filter
       (\<lambda>d. case d of
              None \<Rightarrow> None
            | Some doc \<Rightarrow>
                (case coordinate_lookup coords (doc_id doc) of
                   None \<Rightarrow> None
                 | Some point \<Rightarrow>
                     if coordinate_length point \<noteq> Some 2 then None
                     else Some (point, doc)))
       docs"

text \<open>\<^verbatim>\<open>this.documents[i]\<close>: \<open>None\<close> for a null entry and for an index out of range.\<close>

definition document_at :: "document option list \<Rightarrow> nat \<Rightarrow> document option" where
  "document_at docs i = (case js_nth docs i of Some d \<Rightarrow> d | None \<Rightarrow> None)"

text \<open>
  The loop \<^verbatim>\<open>for (i = 0; i < triangleIndices.length; i += 3)\<close>: three indices at a time;
  a remainder of one or two indices leaves \<^verbatim>\<open>docB\<close> or \<^verbatim>\<open>docC\<close> undefined and pushes
  nothing. The result is the array built so far and the exception, if the constructor
  threw.
\<close>

fun build_triangles ::
  "document option list \<Rightarrow> nat list \<Rightarrow> SemanticTriangle list \<Rightarrow> SemanticTriangle list \<times> exn option" where
  "build_triangles docs (a # b # c # rest) acc =
     (let docA = document_at docs a; docB = document_at docs b; docC = document_at docs c in
      if docA \<noteq> None \<and> docB \<noteq> None \<and> docC \<noteq> None \<and>
         doc_id (the docA) \<noteq> [] \<and> doc_id (the docB) \<noteq> [] \<and> doc_id (the docC) \<noteq> []
      then (case new_SemanticTriangle docA docB docC of
              Inl e \<Rightarrow> (acc, Some e)
            | Inr tri \<Rightarrow> build_triangles docs rest (acc @ [tri]))
      else build_triangles docs rest acc)"
| "build_triangles docs _ acc = (acc, None)"

text \<open>
  \<^verbatim>\<open>buildTriangulation()\<close>: the body of the \<^verbatim>\<open>try\<close> block returns the object as it stands
  when the block ends, with the exception if one was thrown; the method adds the
  \<^verbatim>\<open>catch\<close>. \<open>Inl\<close> of the method's result would be an exception leaving the method.
\<close>

definition buildTriangulation_try ::
  "delaunay_from \<Rightarrow> SemanticTessellation \<Rightarrow> SemanticTessellation \<times> exn option" where
  "buildTriangulation_try from this =
     (if length (documents this) < 3 \<or> coordinates this = None
      then (this\<lparr>initialized := False\<rparr>, None)
      else
        (let coords = the (coordinates this);
             validDocuments = filter (valid_document coords) (documents this)
         in if length validDocuments < 3
            then (this\<lparr>initialized := False\<rparr>, None)
            else
              (let this1 = this\<lparr>documents := validDocuments\<rparr>;
                   placed = placed_points coords validDocuments;
                   points = map fst placed;
                   this2 = this1\<lparr>pointToDocumentMap :=
                                   foldl (\<lambda>m (point, doc). m(point \<mapsto> doc)) Map.empty placed\<rparr>
               in if length points < 3
                  then (this2\<lparr>initialized := False\<rparr>, None)
                  else
                    (let this3 = this2\<lparr>useManualTriangulation := (length (documents this2) \<le> 3)\<rparr> in
                     if useManualTriangulation this3
                     then
                       (case new_SemanticTriangle (document_at (documents this3) 0)
                               (document_at (documents this3) 1) (document_at (documents this3) 2) of
                          Inl e \<Rightarrow> (this3, Some e)
                        | Inr tri \<Rightarrow>
                            (let this4 = this3\<lparr>triangles := [tri]\<rparr> in
                             (this4\<lparr>initialized := (length (triangles this4) > 0)\<rparr>, None)))
                     else
                       (case from points of
                          Inl e \<Rightarrow> (this3, Some e)
                        | Inr d \<Rightarrow>
                            (let this4 = this3\<lparr>delaunay := Some d\<rparr>;
                                 built = build_triangles (documents this4) (d_triangles d) []
                             in case snd built of
                                  Some e \<Rightarrow> (this4\<lparr>triangles := fst built\<rparr>, Some e)
                                | None \<Rightarrow>
                                    (let this5 = this4\<lparr>triangles := fst built\<rparr> in
                                     (this5\<lparr>initialized := (length (triangles this5) > 0)\<rparr>, None))))))))"

definition buildTriangulation :: "delaunay_from \<Rightarrow> SemanticTessellation \<Rightarrow> exn + SemanticTessellation" where
  "buildTriangulation from this =
     (case buildTriangulation_try from this of
        (this', None) \<Rightarrow> Inr this'
      | (this', Some error) \<Rightarrow> Inr (this'\<lparr>initialized := False\<rparr>))"

text \<open>
  \<^verbatim>\<open>triangle.vertices.map(doc => this.coordinates[doc.id]).filter(Boolean)\<close>: reading a
  property of a null \<^verbatim>\<open>coordinates\<close> throws.
\<close>

definition vertex_coordinates ::
  "SemanticTessellation \<Rightarrow> SemanticTriangle \<Rightarrow> exn + coord_value list" where
  "vertex_coordinates this triangle =
     (case coordinates this of
        None \<Rightarrow> (if vertices triangle = [] then Inr []
                  else Inl (TypeError ''Cannot read properties of null''))
      | Some coords \<Rightarrow>
          Inr (List.map_filter (\<lambda>doc. coordinate_lookup coords (doc_id doc)) (vertices triangle)))"

text \<open>\<^verbatim>\<open>this.delaunay.triangles[k]\<close> for a number \<open>k\<close>: undefined when negative or out of range.\<close>

definition index_at :: "nat list \<Rightarrow> int \<Rightarrow> nat option" where
  "index_at xs k = (if 0 \<le> k then js_nth xs (nat k) else None)"

text \<open>The predicate of \<^verbatim>\<open>this.triangles.find\<close>.\<close>

definition matches_indices :: "SemanticTessellation \<Rightarrow> nat option list \<Rightarrow> SemanticTriangle \<Rightarrow> bool" where
  "matches_indices this docIndices triangle =
     (\<forall>idx \<in> set docIndices.
        (case idx of
           None \<Rightarrow> False
         | Some i \<Rightarrow>
             (case document_at (documents this) i of
                None \<Rightarrow> False
              | Some doc \<Rightarrow>
                  doc_id doc \<noteq> [] \<and>
                  (\<exists>triangleDoc \<in> set (vertices triangle).
                     doc_id triangleDoc \<noteq> [] \<and> doc_id triangleDoc = doc_id doc))))"

text \<open>
  The part of \<^verbatim>\<open>findContainingTriangle\<close> after the manual-triangulation block: the
  lookup through the Delaunay object.
\<close>

definition delaunay_lookup ::
  "SemanticTessellation \<Rightarrow> point2 option \<Rightarrow> exn + SemanticTriangle option" where
  "delaunay_lookup this point =
     (case delaunay this of
        None \<Rightarrow> Inr None
      | Some d \<Rightarrow>
          (case point of
             None \<Rightarrow> Inl (TypeError ''Cannot read properties of null'')
           | Some p \<Rightarrow>
               (let triangleIndex = d_find d (fst p) (snd p) in
                if triangleIndex = -1 then Inr None
                else
                  (let docIndices = [index_at (d_triangles d) (triangleIndex * 3),
                                     index_at (d_triangles d) (triangleIndex * 3 + 1),
                                     index_at (d_triangles d) (triangleIndex * 3 + 2)]
                   in Inr (find (matches_indices this docIndices) (triangles this))))))"

text \<open>
  \<^verbatim>\<open>findContainingTriangle(point)\<close>. \<open>Inr None\<close> is the result \<^verbatim>\<open>null\<close> (or the
  \<^verbatim>\<open>undefined\<close> of a \<^verbatim>\<open>find\<close> without match); \<open>Inl\<close> is an exception.
\<close>

definition findContainingTriangle ::
  "SemanticTessellation \<Rightarrow> point2 option \<Rightarrow> exn + SemanticTriangle option" where
  "findContainingTriangle this point =
     (if \<not> initialized this then Inr None
      else if useManualTriangulation this
      then (case js_nth (triangles this) 0 of
              None \<Rightarrow> Inr None
            | Some triangle \<Rightarrow>
                (case vertex_coordinates this triangle of
                   Inl e \<Rightarrow> Inl e
                 | Inr vs \<Rightarrow>
                     if length vs \<noteq> 3 then Inr None
                     else if delaunay this \<noteq> None then delaunay_lookup this point
                     else Inr None))
      else delaunay_lookup this point)"

text \<open>
  The numbers of a result over the reals, as JavaScript numbers.
\<close>

definition lift_semantics :: "real semantics \<Rightarrow> jsnum semantics" where
  "lift_semantics s =
     \<lparr>contributions =
        map (\<lambda>c. \<lparr>c_id = c_id c, c_title = c_title c,
                   weight = map_option Fin (weight c),
                   similarity = map_option Fin (similarity c)\<rparr>) (contributions s),
      combinedEmbedding = map Fin (combinedEmbedding s),
      setOperation = setOperation s\<rparr>"

text \<open>
  \<^verbatim>\<open>getInteriorPointSemantics([NaN, NaN, NaN])\<close>, followed through the source. The
  length tests are as for finite weights. The sum is NaN, so \<^verbatim>\<open>Math.abs(sum) < 0.0001\<close>
  is false and every normalised weight is NaN. With embeddings of one positive length
  every component of the combined embedding is \<open>0 + NaN * e\<close>, that is NaN. In
  \<^verbatim>\<open>interpretAsSetOperations\<close> every comparison with NaN is false: the \<^verbatim>\<open>every\<close> test
  fails, \<^verbatim>\<open>indexOf(NaN)\<close> is \<open>-1\<close> and \<^verbatim>\<open>weights[-1] >= HIGH\<close> is false, the sort
  leaves the order, \<^verbatim>\<open>sortedIndices[0].weight >= MEDIUM\<close> is false, and the default
  case is returned. In \<^verbatim>\<open>calculateSimilarity\<close> the test \<^verbatim>\<open>normA === 0\<close> is false for
  the NaN norm of the combined embedding; the result is 0 when the vertex embedding has
  norm zero and NaN otherwise.
\<close>

definition getInteriorPointSemantics_NaN :: "SemanticTriangle \<Rightarrow> jsnum semantics" where
  "getInteriorPointSemantics_NaN t =
     (if length (embeddings t) \<noteq> 3
      then lift_semantics (failed_semantics t ''unknown'' ''Could not determine semantic relationship''
                             ''Analysis failed due to invalid data'')
      else
        (let normalizedWeights = [NaN, NaN, NaN];
             embeddingLength = length (embeddings t ! 0)
         in if embeddingLength = 0 \<or> (\<exists>e \<in> set (embeddings t). length e \<noteq> embeddingLength)
            then \<lparr>contributions = make_contributions t (js_nth normalizedWeights) (\<lambda>i. Some (Fin (1/2))),
                  combinedEmbedding = [],
                  setOperation =
                    \<lparr>op_type = ''unknown'',
                     description = ''Could not determine semantic relationship'',
                     conceptual = ''Analysis failed due to inconsistent embedding dimensions''\<rparr>\<rparr>
            else
              (let similarities =
                     map (\<lambda>embedding. if dotProduct embedding embedding = 0 then Fin 0 else NaN)
                       (embeddings t)
               in \<lparr>contributions = make_contributions t (js_nth normalizedWeights) (js_nth similarities),
                   combinedEmbedding = replicate embeddingLength NaN,
                   setOperation = complex_weighted_combination\<rparr>)))"

record analysis =
  a_triangle :: SemanticTriangle
  a_weights :: "jsnum list"
  a_semantics :: "jsnum semantics"
  a_point :: point2

text \<open>
  \<^verbatim>\<open>analyzePoint(point)\<close>: the body of the \<^verbatim>\<open>try\<close> block, then the method with its
  \<^verbatim>\<open>catch\<close>, which turns every exception into \<^verbatim>\<open>null\<close>. When the three vertex values
  are coordinate arrays, the weights and the semantics are the finite ones. When one of
  them is an inherited member, its components are \<^verbatim>\<open>undefined\<close>: the denominator of
  \<^verbatim>\<open>calculateBarycentricCoordinates\<close> is NaN, the degenerate test is false, and the three
  weights are NaN.
\<close>

definition analyzePoint_try :: "SemanticTessellation \<Rightarrow> point2 \<Rightarrow> exn + analysis option" where
  "analyzePoint_try this point =
     (case findContainingTriangle this (Some point) of
        Inl e \<Rightarrow> Inl e
      | Inr None \<Rightarrow> Inr None
      | Inr (Some triangle) \<Rightarrow>
          (case vertex_coordinates this triangle of
             Inl e \<Rightarrow> Inl e
           | Inr vs \<Rightarrow>
               if length vs \<noteq> 3 then Inr None
               else if \<forall>v \<in> set vs. point_of v \<noteq> None
               then
                 (let weights = calculateBarycentricCoordinates (Some point)
                                  (Some (List.map_filter point_of vs)) in
                  if length weights \<noteq> 3 then Inr None
                  else
                    (case getInteriorPointSemantics triangle weights of
                       Inl e \<Rightarrow> Inl e
                     | Inr sem \<Rightarrow>
                         Inr (Some \<lparr>a_triangle = triangle, a_weights = map Fin weights,
                                    a_semantics = lift_semantics sem, a_point = point\<rparr>)))
               else
                 Inr (Some \<lparr>a_triangle = triangle, a_weights = [NaN, NaN, NaN],
                            a_semantics = getInteriorPointSemantics_NaN triangle, a_point = point\<rparr>)))"

definition analyzePoint :: "SemanticTessellation \<Rightarrow> point2 option \<Rightarrow> exn + analysis option" where
  "analyzePoint this point =
     (case point of
        None \<Rightarrow> Inr None
      | Some p \<Rightarrow>
          if \<not> initialized this then Inr None
          else (case analyzePoint_try this p of
                  Inl error \<Rightarrow> Inr None
                | Inr r \<Rightarrow> Inr r))"

section \<open>Auxiliary notions used in the statements\<close>

text \<open>The scalar triple product \<^verbatim>\<open>crossVectors(a, b).dot(c)\<close>.\<close>

definition det3 :: "Vector3 \<Rightarrow> Vector3 \<Rightarrow> Vector3 \<Rightarrow> real" where
  "det3 a b c = dot (crossVectors a b) c"

text \<open>The value of \<^verbatim>\<open>totalVolume\<close> in \<^verbatim>\<open>calculateBarycentricCoordinates3D\<close>.\<close>

definition totalVolume3D :: "Vector3 \<Rightarrow> Vector3 list \<Rightarrow> real" where
  "totalVolume3D point vs =
     \<bar>det3 (subVectors point (vs ! 1)) (subVectors point (vs ! 2)) (subVectors point (vs ! 3))\<bar> / 6
   + \<bar>det3 (subVectors (vs ! 0) point) (subVectors (vs ! 2) point) (subVectors (vs ! 3) point)\<bar> / 6
   + \<bar>det3 (subVectors (vs ! 0) point) (subVectors (vs ! 1) point) (subVectors (vs ! 3) point)\<bar> / 6
   + \<bar>det3 (subVectors (vs ! 0) point) (subVectors (vs ! 1) point) (subVectors (vs ! 2) point)\<bar> / 6"

text \<open>
  The sum and the normalisation of the weights in \<^verbatim>\<open>getInteriorPointSemantics\<close>.
\<close>

definition weight_sum :: "real list \<Rightarrow> real" where
  "weight_sum ws = foldl (\<lambda>acc w. acc + w) 0 ws"

definition normalized :: "real list \<Rightarrow> real list" where
  "normalized ws = map (\<lambda>w. w / weight_sum ws) ws"

text \<open>
  The cosine similarity in the words of the specification: the dot product over the
  product of the Euclidean norms, and 0 when one of the vectors has norm zero.
\<close>

definition vector_norm :: "real list \<Rightarrow> real" where
  "vector_norm a = sqrt (sum_list (map (\<lambda>x. x * x) a))"

definition cosineSimilarity_spec :: "real list \<Rightarrow> real list \<Rightarrow> real" where
  "cosineSimilarity_spec a b =
     (if vector_norm a = 0 \<or> vector_norm b = 0 then 0
      else sum_list (map (\<lambda>(x, y). x * y) (zip a b)) / (vector_norm a * vector_norm b))"

section \<open>Example data\<close>

text \<open>Three documents with embeddings of two components, and the triangle the constructor builds from them.\<close>

definition docA :: document where
  "docA = \<lparr>doc_id = ''a'', doc_title = ''A'', doc_content = [], doc_embedding = Some [1, 0]\<rparr>"

definition docB :: document where
  "docB = \<lparr>doc_id = ''b'', doc_title = ''B'', doc_content = [], doc_embedding = Some [0, 1]\<rparr>"

definition docC :: document where
  "docC = \<lparr>doc_id = ''c'', doc_title = ''C'', doc_content = [], doc_embedding = Some [1, 0]\<rparr>"

definition triangleABC :: SemanticTriangle where
  "triangleABC =
     \<lparr>vertices = [docA, docB, docC], embeddings = [[1, 0], [0, 1], [1, 0]], tri_id = ''triangle-a-b-c''\<rparr>"

text \<open>
  A document whose embedding has three components, three documents without embedding and
  without content, and the triangles the constructor builds from them.
\<close>

definition docD :: document where
  "docD = \<lparr>doc_id = ''d'', doc_title = ''D'', doc_content = [], doc_embedding = Some [1, 0, 0]\<rparr>"

definition docE :: document where
  "docE = \<lparr>doc_id = ''e'', doc_title = [], doc_content = [], doc_embedding = None\<rparr>"

definition docF :: document where
  "docF = \<lparr>doc_id = ''f'', doc_title = [], doc_content = [], doc_embedding = None\<rparr>"

definition docG :: document where
  "docG = \<lparr>doc_id = ''g'', doc_title = [], doc_content = [], doc_embedding = None\<rparr>"

definition triangleADE :: SemanticTriangle where
  "triangleADE =
     \<lparr>vertices = [docA, docD, docE], embeddings = [[1, 0], [1, 0, 0], replicate 128 0],
      tri_id = ''triangle-a-d-e''\<rparr>"

definition triangleEFG :: SemanticTriangle where
  "triangleEFG =
     \<lparr>vertices = [docE, docF, docG], embeddings = [replicate 128 0, replicate 128 0, replicate 128 0],
      tri_id = ''triangle-e-f-g''\<rparr>"

text \<open>
  The contract of \<^verbatim>\<open>find\<close> in the d3-delaunay documentation, for the examples: the index
  of the input point closest to \<open>(x, y)\<close> (the first of several), and \<open>-1\<close> when there
  is no point.
\<close>

definition dist2 :: "real \<Rightarrow> real \<Rightarrow> point2 \<Rightarrow> real" where
  "dist2 x y p = (x - fst p) * (x - fst p) + (y - snd p) * (y - snd p)"

fun closest_from :: "point2 list \<Rightarrow> nat \<Rightarrow> nat \<times> real \<Rightarrow> real \<Rightarrow> real \<Rightarrow> nat" where
  "closest_from [] i best x y = fst best"
| "closest_from (p # ps) i best x y =
     closest_from ps (i + 1) (if dist2 x y p < snd best then (i, dist2 x y p) else best) x y"

definition closest_index :: "point2 list \<Rightarrow> real \<Rightarrow> real \<Rightarrow> int" where
  "closest_index ps x y =
     (case ps of [] \<Rightarrow> -1 | p # rest \<Rightarrow> int (closest_from rest 1 (0, dist2 x y p) x y))"

text \<open>
  Three documents at \<open>(0,0)\<close>, \<open>(4,0)\<close>, \<open>(0,4)\<close>, a fourth at \<open>(5,5)\<close>, and a Delaunay
  object for the four points: the triangles \<open>a b c\<close> and \<open>b h c\<close>. Two documents without
  coordinates whose ids name members of \<^verbatim>\<open>Object.prototype\<close>.
\<close>

definition docH :: document where
  "docH = \<lparr>doc_id = ''h'', doc_title = ''H'', doc_content = [], doc_embedding = Some [0, 1]\<rparr>"

definition docP :: document where
  "docP = \<lparr>doc_id = ''__defineGetter__'', doc_title = ''P'', doc_content = [], doc_embedding = Some [1, 0]\<rparr>"

definition docQ :: document where
  "docQ = \<lparr>doc_id = ''constructor'', doc_title = ''Q'', doc_content = [], doc_embedding = Some [1, 0]\<rparr>"

definition triangleABP :: SemanticTriangle where
  "triangleABP =
     \<lparr>vertices = [docA, docB, docP], embeddings = [[1, 0], [0, 1], [1, 0]],
      tri_id = ''triangle-a-b-__defineGetter__''\<rparr>"

definition coords3 :: "string \<rightharpoonup> point2" where
  "coords3 = [''a'' \<mapsto> (0, 0), ''b'' \<mapsto> (4, 0), ''c'' \<mapsto> (0, 4)]"

definition coords4 :: "string \<rightharpoonup> point2" where
  "coords4 = [''a'' \<mapsto> (0, 0), ''b'' \<mapsto> (4, 0), ''c'' \<mapsto> (0, 4), ''h'' \<mapsto> (5, 5)]"

definition triangleBHC :: SemanticTriangle where
  "triangleBHC =
     \<lparr>vertices = [docB, docH, docC], embeddings = [[0, 1], [0, 1], [1, 0]], tri_id = ''triangle-b-h-c''\<rparr>"

definition delaunay4 :: delaunay where
  "delaunay4 =
     \<lparr>d_triangles = [0, 1, 2, 1, 3, 2],
      d_find = closest_index [(0, 0), (4, 0), (0, 4), (5, 5)]\<rparr>"

definition from4 :: delaunay_from where
  "from4 points =
     Inr \<lparr>d_triangles = [0, 1, 2, 1, 3, 2], d_find = closest_index (List.map_filter point_of points)\<rparr>"

definition tessellation3 :: SemanticTessellation where
  "tessellation3 =
     \<lparr>documents = [Some docA, Some docB, Some docC], coordinates = Some coords3,
      triangles = [triangleABC], delaunay = None, voronoi = None,
      pointToDocumentMap = [Point (0, 0) \<mapsto> docA, Point (4, 0) \<mapsto> docB, Point (0, 4) \<mapsto> docC],
      initialized = True, useManualTriangulation = True\<rparr>"

definition tessellation4 :: SemanticTessellation where
  "tessellation4 =
     \<lparr>documents = [Some docA, Some docB, Some docC, Some docH], coordinates = Some coords4,
      triangles = [triangleABC, triangleBHC], delaunay = Some delaunay4, voronoi = None,
      pointToDocumentMap =
        [Point (0, 0) \<mapsto> docA, Point (4, 0) \<mapsto> docB, Point (0, 4) \<mapsto> docC, Point (5, 5) \<mapsto> docH],
      initialized = True, useManualTriangulation = False\<rparr>"

section \<open>Barycentric weights at the vertices\<close>

lemma det3_zero_first: "det3 (subVectors a a) b c = 0"
  by (simp add: det3_def dot_def crossVectors_def subVectors_def)

lemma det3_zero_second: "det3 a (subVectors b b) c = 0"
  by (simp add: det3_def dot_def crossVectors_def subVectors_def)

lemma det3_zero_third: "det3 a b (subVectors c c) = 0"
  by (simp add: det3_def dot_def crossVectors_def subVectors_def)

lemma calc3D_unfold:
  "calculateBarycentricCoordinates3D p [v0, v1, v2, v3] =
     (let a = \<bar>det3 (subVectors p v1) (subVectors p v2) (subVectors p v3)\<bar> / 6;
          b = \<bar>det3 (subVectors v0 p) (subVectors v2 p) (subVectors v3 p)\<bar> / 6;
          c = \<bar>det3 (subVectors v0 p) (subVectors v1 p) (subVectors v3 p)\<bar> / 6;
          d = \<bar>det3 (subVectors v0 p) (subVectors v1 p) (subVectors v2 p)\<bar> / 6;
          t = a + b + c + d
      in [js_div a t, js_div b t, js_div c t, js_div d t])"
  by (simp add: calculateBarycentricCoordinates3D_def det3_def Let_def)

lemma volume3D_det3:
  "volume3D [v0, v1, v2, v3] = det3 (subVectors v1 v0) (subVectors v2 v0) (subVectors v3 v0) / 6"
  by (simp add: volume3D_def det3_def Let_def)

lemma det3_at_v0:
  "\<bar>det3 (subVectors v0 v1) (subVectors v0 v2) (subVectors v0 v3)\<bar> = 6 * \<bar>volume3D [v0, v1, v2, v3]\<bar>"
proof -
  have "det3 (subVectors v0 v1) (subVectors v0 v2) (subVectors v0 v3)
        = - det3 (subVectors v1 v0) (subVectors v2 v0) (subVectors v3 v0)"
    by (simp add: det3_def dot_def crossVectors_def subVectors_def algebra_simps)
  then show ?thesis by (simp add: volume3D_det3)
qed

lemma det3_at_v1:
  "\<bar>det3 (subVectors v0 v1) (subVectors v2 v1) (subVectors v3 v1)\<bar> = 6 * \<bar>volume3D [v0, v1, v2, v3]\<bar>"
proof -
  have "det3 (subVectors v0 v1) (subVectors v2 v1) (subVectors v3 v1)
        = - det3 (subVectors v1 v0) (subVectors v2 v0) (subVectors v3 v0)"
    by (simp add: det3_def dot_def crossVectors_def subVectors_def algebra_simps)
  then show ?thesis by (simp add: volume3D_det3)
qed

lemma det3_at_v2:
  "\<bar>det3 (subVectors v0 v2) (subVectors v1 v2) (subVectors v3 v2)\<bar> = 6 * \<bar>volume3D [v0, v1, v2, v3]\<bar>"
proof -
  have "det3 (subVectors v0 v2) (subVectors v1 v2) (subVectors v3 v2)
        = det3 (subVectors v1 v0) (subVectors v2 v0) (subVectors v3 v0)"
    by (simp add: det3_def dot_def crossVectors_def subVectors_def algebra_simps)
  then show ?thesis by (simp add: volume3D_det3)
qed

lemma det3_at_v3:
  "\<bar>det3 (subVectors v0 v3) (subVectors v1 v3) (subVectors v2 v3)\<bar> = 6 * \<bar>volume3D [v0, v1, v2, v3]\<bar>"
proof -
  have "det3 (subVectors v0 v3) (subVectors v1 v3) (subVectors v2 v3)
        = - det3 (subVectors v1 v0) (subVectors v2 v0) (subVectors v3 v0)"
    by (simp add: det3_def dot_def crossVectors_def subVectors_def algebra_simps)
  then show ?thesis by (simp add: volume3D_det3)
qed

lemma bary2_vertices:
  assumes "1/10000 \<le> \<bar>denominator2 v1 v2 v3\<bar>"
  shows "calculateBarycentricCoordinates (Some v1) (Some [v1, v2, v3]) = [1, 0, 0]"
    and "calculateBarycentricCoordinates (Some v2) (Some [v1, v2, v3]) = [0, 1, 0]"
    and "calculateBarycentricCoordinates (Some v3) (Some [v1, v2, v3]) = [0, 0, 1]"
proof -
  let ?d = "(snd v2 - snd v3) * (fst v1 - fst v3) + (fst v3 - fst v2) * (snd v1 - snd v3)"
  have d: "\<not> \<bar>?d\<bar> < 1/10000" "?d \<noteq> 0"
    using assms by (auto simp: denominator2_def)
  have n2: "(snd v3 - snd v1) * (fst v1 - fst v3) + (fst v1 - fst v3) * (snd v1 - snd v3) = 0"
    by (simp add: algebra_simps)
  have n3: "(snd v2 - snd v3) * (fst v2 - fst v3) + (fst v3 - fst v2) * (snd v2 - snd v3) = 0"
    by (simp add: algebra_simps)
  have n4: "(snd v3 - snd v1) * (fst v2 - fst v3) + (fst v1 - fst v3) * (snd v2 - snd v3) = ?d"
    by (simp add: algebra_simps)
  show "calculateBarycentricCoordinates (Some v1) (Some [v1, v2, v3]) = [1, 0, 0]"
    using d n2 by (simp add: calculateBarycentricCoordinates_def Let_def)
  show "calculateBarycentricCoordinates (Some v2) (Some [v1, v2, v3]) = [0, 1, 0]"
    using d n3 n4 by (simp add: calculateBarycentricCoordinates_def Let_def)
  show "calculateBarycentricCoordinates (Some v3) (Some [v1, v2, v3]) = [0, 0, 1]"
    using d by (simp add: calculateBarycentricCoordinates_def Let_def)
qed

lemma bary3_vertices:
  assumes "volume3D [v0, v1, v2, v3] \<noteq> 0"
  shows "calculateBarycentricCoordinates3D v0 [v0, v1, v2, v3] = [Fin 1, Fin 0, Fin 0, Fin 0]"
    and "calculateBarycentricCoordinates3D v1 [v0, v1, v2, v3] = [Fin 0, Fin 1, Fin 0, Fin 0]"
    and "calculateBarycentricCoordinates3D v2 [v0, v1, v2, v3] = [Fin 0, Fin 0, Fin 1, Fin 0]"
    and "calculateBarycentricCoordinates3D v3 [v0, v1, v2, v3] = [Fin 0, Fin 0, Fin 0, Fin 1]"
proof -
  note zeros = det3_zero_first det3_zero_second det3_zero_third
  show "calculateBarycentricCoordinates3D v0 [v0, v1, v2, v3] = [Fin 1, Fin 0, Fin 0, Fin 0]"
    using assms by (simp add: calc3D_unfold zeros det3_at_v0 js_div_def Let_def)
  show "calculateBarycentricCoordinates3D v1 [v0, v1, v2, v3] = [Fin 0, Fin 1, Fin 0, Fin 0]"
    using assms by (simp add: calc3D_unfold zeros det3_at_v1 js_div_def Let_def)
  show "calculateBarycentricCoordinates3D v2 [v0, v1, v2, v3] = [Fin 0, Fin 0, Fin 1, Fin 0]"
    using assms by (simp add: calc3D_unfold zeros det3_at_v2 js_div_def Let_def)
  show "calculateBarycentricCoordinates3D v3 [v0, v1, v2, v3] = [Fin 0, Fin 0, Fin 0, Fin 1]"
    using assms by (simp add: calc3D_unfold zeros det3_at_v3 js_div_def Let_def)
qed

text \<open>
  Claim C9. For a triangle that the code does not treat as degenerate (the determinant
  is at least \<open>0.0001\<close> in absolute value) and for a tetrahedron of non-zero volume,
  the weights computed at a vertex's own coordinate are 1 for that vertex and 0 for
  every other vertex.
\<close>

theorem vertex_weights_are_unit:
  "(1/10000 \<le> \<bar>denominator2 v1 v2 v3\<bar> \<longrightarrow>
      calculateBarycentricCoordinates (Some v1) (Some [v1, v2, v3]) = [1, 0, 0] \<and>
      calculateBarycentricCoordinates (Some v2) (Some [v1, v2, v3]) = [0, 1, 0] \<and>
      calculateBarycentricCoordinates (Some v3) (Some [v1, v2, v3]) = [0, 0, 1]) \<and>
   (volume3D [u0, u1, u2, u3] \<noteq> 0 \<longrightarrow>
      calculateBarycentricCoordinates3D u0 [u0, u1, u2, u3] = [Fin 1, Fin 0, Fin 0, Fin 0] \<and>
      calculateBarycentricCoordinates3D u1 [u0, u1, u2, u3] = [Fin 0, Fin 1, Fin 0, Fin 0] \<and>
      calculateBarycentricCoordinates3D u2 [u0, u1, u2, u3] = [Fin 0, Fin 0, Fin 1, Fin 0] \<and>
      calculateBarycentricCoordinates3D u3 [u0, u1, u2, u3] = [Fin 0, Fin 0, Fin 0, Fin 1])"
  using bary2_vertices [of v1 v2 v3] bary3_vertices [of u0 u1 u2 u3] by blast

theorem vertex_weights_are_unit_witness:
  "1/10000 \<le> \<bar>denominator2 (0, 0) (1, 0) (0, 1)\<bar> \<and>
   calculateBarycentricCoordinates (Some (0, 0)) (Some [(0, 0), (1, 0), (0, 1)]) = [1, 0, 0] \<and>
   calculateBarycentricCoordinates (Some (1, 0)) (Some [(0, 0), (1, 0), (0, 1)]) = [0, 1, 0] \<and>
   calculateBarycentricCoordinates (Some (0, 1)) (Some [(0, 0), (1, 0), (0, 1)]) = [0, 0, 1] \<and>
   volume3D [Vector3 0 0 0, Vector3 1 0 0, Vector3 0 1 0, Vector3 0 0 1] \<noteq> 0 \<and>
   calculateBarycentricCoordinates3D (Vector3 0 0 0)
     [Vector3 0 0 0, Vector3 1 0 0, Vector3 0 1 0, Vector3 0 0 1] = [Fin 1, Fin 0, Fin 0, Fin 0] \<and>
   calculateBarycentricCoordinates3D (Vector3 0 0 1)
     [Vector3 0 0 0, Vector3 1 0 0, Vector3 0 1 0, Vector3 0 0 1] = [Fin 0, Fin 0, Fin 0, Fin 1]"
proof -
  have d: "1/10000 \<le> \<bar>denominator2 (0, 0) (1, 0) (0, 1)\<bar>"
    by (simp add: denominator2_def)
  have v: "volume3D [Vector3 0 0 0, Vector3 1 0 0, Vector3 0 1 0, Vector3 0 0 1] \<noteq> 0"
    by (simp add: volume3D_def subVectors_def crossVectors_def dot_def)
  show ?thesis
    using d v
      vertex_weights_are_unit [of "(0, 0)" "(1, 0)" "(0, 1)"
        "Vector3 0 0 0" "Vector3 1 0 0" "Vector3 0 1 0" "Vector3 0 0 1"]
    by blast
qed

section \<open>Degenerate simplices\<close>

lemma degenerate_triangle_fallback:
  assumes "\<bar>denominator2 v1 v2 v3\<bar> < 1/10000"
  shows "calculateBarycentricCoordinates p (Some [v1, v2, v3]) = [33/100, 33/100, 34/100]"
  using assms by (simp add: calculateBarycentricCoordinates_def denominator2_def Let_def)

lemma calc3D_total:
  "calculateBarycentricCoordinates3D p [v0, v1, v2, v3] =
     map (\<lambda>v. js_div v (totalVolume3D p [v0, v1, v2, v3]))
       [\<bar>det3 (subVectors p v1) (subVectors p v2) (subVectors p v3)\<bar> / 6,
        \<bar>det3 (subVectors v0 p) (subVectors v2 p) (subVectors v3 p)\<bar> / 6,
        \<bar>det3 (subVectors v0 p) (subVectors v1 p) (subVectors v3 p)\<bar> / 6,
        \<bar>det3 (subVectors v0 p) (subVectors v1 p) (subVectors v2 p)\<bar> / 6]"
  by (simp add: calc3D_unfold totalVolume3D_def Let_def)

lemma total_zero_parts:
  assumes "totalVolume3D p [v0, v1, v2, v3] = 0"
  shows "det3 (subVectors p v1) (subVectors p v2) (subVectors p v3) = 0"
    and "det3 (subVectors v0 p) (subVectors v2 p) (subVectors v3 p) = 0"
    and "det3 (subVectors v0 p) (subVectors v1 p) (subVectors v3 p) = 0"
    and "det3 (subVectors v0 p) (subVectors v1 p) (subVectors v2 p) = 0"
  using assms unfolding totalVolume3D_def by simp_all

lemma flat_tetrahedron_nan:
  assumes "totalVolume3D p [v0, v1, v2, v3] = 0"
  shows "calculateBarycentricCoordinates3D p [v0, v1, v2, v3] = [NaN, NaN, NaN, NaN]"
  using total_zero_parts [OF assms] assms by (simp add: calc3D_total js_div_def)

text \<open>
  Claim C2, as amended. A triangle whose determinant is, in absolute value, below
  \<open>0.0001\<close> gets the fixed weights \<open>[0.33, 0.33, 0.34]\<close> for every query point (also a
  missing one), without an exception and without a flag. The tetrahedron code has no
  fallback: when the four sub-volumes vanish, as for a query point in the plane of a
  flat tetrahedron, every weight is \<open>0 / 0\<close>, that is NaN.
\<close>

theorem degenerate_fallback_is_033:
  "(\<bar>denominator2 v1 v2 v3\<bar> < 1/10000 \<longrightarrow>
      calculateBarycentricCoordinates p (Some [v1, v2, v3]) = [33/100, 33/100, 34/100]) \<and>
   (totalVolume3D q [u0, u1, u2, u3] = 0 \<longrightarrow>
      calculateBarycentricCoordinates3D q [u0, u1, u2, u3] = [NaN, NaN, NaN, NaN])"
  using degenerate_triangle_fallback flat_tetrahedron_nan by blast

theorem degenerate_fallback_is_033_witness:
  "\<bar>denominator2 (0, 0) (1, 1) (2, 2)\<bar> < 1/10000 \<and>
   calculateBarycentricCoordinates (Some (5, 7)) (Some [(0, 0), (1, 1), (2, 2)]) = [33/100, 33/100, 34/100] \<and>
   totalVolume3D (Vector3 0 0 0) [Vector3 0 0 0, Vector3 1 0 0, Vector3 0 1 0, Vector3 1 1 0] = 0 \<and>
   calculateBarycentricCoordinates3D (Vector3 0 0 0)
     [Vector3 0 0 0, Vector3 1 0 0, Vector3 0 1 0, Vector3 1 1 0] = [NaN, NaN, NaN, NaN]"
proof -
  have d: "\<bar>denominator2 (0, 0) (1, 1) (2, 2)\<bar> < 1/10000"
    by (simp add: denominator2_def)
  have t: "totalVolume3D (Vector3 0 0 0) [Vector3 0 0 0, Vector3 1 0 0, Vector3 0 1 0, Vector3 1 1 0] = 0"
    by (simp add: totalVolume3D_def det3_def subVectors_def crossVectors_def dot_def)
  show ?thesis
    using d t
      degenerate_fallback_is_033 [of "(0, 0)" "(1, 1)" "(2, 2)" "Some (5, 7)"
        "Vector3 0 0 0" "Vector3 0 0 0" "Vector3 1 0 0" "Vector3 0 1 0" "Vector3 1 1 0"]
    by blast
qed

text \<open>
  Claim C2 as stated fails: the collinear triangle \<open>(0,0), (1,1), (2,2)\<close> does not get
  \<open>[1/3, 1/3, 1/3]\<close>, and the flat tetrahedron with vertices in the plane \<open>z = 0\<close> does
  not get \<open>[1/4, 1/4, 1/4, 1/4]\<close>, for a query point in its plane or off it.
\<close>

theorem degenerate_equal_weights_counterexample:
  "\<bar>denominator2 (0, 0) (1, 1) (2, 2)\<bar> < 1/10000 \<and>
   calculateBarycentricCoordinates (Some (5, 7)) (Some [(0, 0), (1, 1), (2, 2)]) \<noteq> [1/3, 1/3, 1/3] \<and>
   volume3D [Vector3 0 0 0, Vector3 1 0 0, Vector3 0 1 0, Vector3 1 1 0] = 0 \<and>
   calculateBarycentricCoordinates3D (Vector3 0 0 0)
     [Vector3 0 0 0, Vector3 1 0 0, Vector3 0 1 0, Vector3 1 1 0] \<noteq> [Fin (1/4), Fin (1/4), Fin (1/4), Fin (1/4)] \<and>
   calculateBarycentricCoordinates3D (Vector3 0 0 1)
     [Vector3 0 0 0, Vector3 1 0 0, Vector3 0 1 0, Vector3 2 2 0] \<noteq> [Fin (1/4), Fin (1/4), Fin (1/4), Fin (1/4)]"
  by (simp add: denominator2_def calculateBarycentricCoordinates_def volume3D_def
      calculateBarycentricCoordinates3D_def subVectors_def crossVectors_def dot_def js_div_def Let_def)

section \<open>The sum of the weights\<close>



















section \<open>The classifier\<close>

lemma triangleABC_constructed:
  "new_SemanticTriangle (Some docA) (Some docB) (Some docC) = Inr triangleABC"
  by (simp add: new_SemanticTriangle_def triangleABC_def docA_def docB_def docC_def)

lemma sorted3_desc:
  assumes "b \<le> a" "c < b"
  shows "sortedIndices [a, b, c] = [(a, 0), (b, 1), (c, 2)]"
  using assms by (simp add: sortedIndices_def upt_rec)

lemma sorted3_swap:
  assumes "a < b" "c < a"
  shows "sortedIndices [a, b, c] = [(b, 1), (a, 0), (c, 2)]"
  using assms by (simp add: sortedIndices_def upt_rec)

lemma Math_max3: "Math_max [a, b, c] = max c (max b a)"
  by (simp add: Math_max_def)

lemma paired_general:
  assumes "3/10 \<le> a" "a < 6/10" "3/10 \<le> b" "b < 6/10" "c < 1/10"
  shows "interpretAsSetOperations t [a, b, c] =
           Inr (if b \<le> a then paired_intersection (titles_of t) 0 1
                else paired_intersection (titles_of t) 1 0)"
proof (cases "b \<le> a")
  case True
  then have s: "sortedIndices [a, b, c] = [(a, 0), (b, 1), (c, 2)]"
    using assms by (intro sorted3_desc) auto
  have m: "Math_max [a, b, c] = a"
    using True assms by (simp add: Math_max3 max_def)
  show ?thesis
    using assms True
    by (simp add: interpretAsSetOperations_def Let_def s m HIGH_def MEDIUM_def LOW_def js_nth_def)
next
  case False
  then have s: "sortedIndices [a, b, c] = [(b, 1), (a, 0), (c, 2)]"
    using assms by (intro sorted3_swap) auto
  have m: "Math_max [a, b, c] = b"
    using False assms by (simp add: Math_max3 max_def)
  show ?thesis
    using assms False
    by (simp add: interpretAsSetOperations_def Let_def s m HIGH_def MEDIUM_def LOW_def js_nth_def)
qed

lemma third_weight_at_low:
  "interpretAsSetOperations t [45/100, 45/100, 1/10] = Inr complex_weighted_combination"
  by (simp add: interpretAsSetOperations_def Let_def Math_max_def Math_min_def
      HIGH_def MEDIUM_def LOW_def js_nth_def sortedIndices_def upt_rec)

text \<open>
  Claim C3, as amended. The vector \<open>[0.45, 0.45, 0.1]\<close> is classified
  \<open>complex_weighted_combination\<close>: its third weight equals \<open>LOW\<close> and the test is
  \<open>< LOW\<close>. A vector \<open>[a, b, c]\<close> with \<open>0.3 \<le> a, b < 0.6\<close> and \<open>c < 0.1\<close> is classified
  \<open>paired_intersection\<close>, and the description names the vertices of \<open>a\<close> and \<open>b\<close>, the
  larger weight first (the first vertex on a tie).
\<close>

theorem paired_intersection_rule:
  "interpretAsSetOperations t [45/100, 45/100, 1/10] = Inr complex_weighted_combination \<and>
   (3/10 \<le> a \<and> a < 6/10 \<and> 3/10 \<le> b \<and> b < 6/10 \<and> c < 1/10 \<longrightarrow>
      interpretAsSetOperations t [a, b, c] =
        Inr (if b \<le> a then paired_intersection (titles_of t) 0 1
             else paired_intersection (titles_of t) 1 0))"
  using third_weight_at_low paired_general by blast

theorem paired_intersection_rule_witness:
  "interpretAsSetOperations triangleABC [45/100, 45/100, 1/10] = Inr complex_weighted_combination \<and>
   interpretAsSetOperations triangleABC [46/100, 46/100, 8/100] =
     Inr \<lparr>op_type = ''paired_intersection'',
          description = ''Intersection of A and B'',
          conceptual = ''This point represents concepts shared between two documents with little influence from the third.''\<rparr>"
proof -
  have h: "(3/10::real) \<le> 46/100 \<and> (46/100::real) < 6/10 \<and> (3/10::real) \<le> 46/100 \<and>
           (46/100::real) < 6/10 \<and> (8/100::real) < 1/10"
    by simp
  have t: "titles_of triangleABC = [''A'', ''B'', ''C'']"
    by (simp add: titles_of_def triangleABC_def docA_def docB_def docC_def)
  show ?thesis
    using h paired_intersection_rule [of triangleABC "46/100" "46/100" "8/100"]
    by (simp add: t paired_intersection_def template_title_def)
qed

text \<open>
  Claim C3 as stated fails: for the triangle of the documents A, B and C the vector
  \<open>[0.45, 0.45, 0.1]\<close> is not classified \<open>paired_intersection\<close>.
\<close>

theorem paired_intersection_counterexample:
  "\<not> (\<exists>r. interpretAsSetOperations triangleABC [45/100, 45/100, 1/10] = Inr r \<and>
            op_type r = ''paired_intersection'')"
  using third_weight_at_low [of triangleABC]
  by (auto simp: complex_weighted_combination_def)

section \<open>Semantic interpolation\<close>

lemma foldl_dot: "foldl (\<lambda>acc (a, b). acc + a * b) s xs = s + sum_list (map (\<lambda>(x, y). x * y) xs)"
  by (induction xs arbitrary: s) (auto simp: algebra_simps)

lemma dotProduct_sum: "dotProduct a b = sum_list (map (\<lambda>(x, y). x * y) (zip a b))"
  by (simp add: dotProduct_def foldl_dot)

lemma dotProduct_self: "dotProduct a a = sum_list (map (\<lambda>x. x * x) a)"
  by (simp add: dotProduct_sum zip_same_conv_map comp_def)

lemma calculateSimilarity_cosine:
  "calculateSimilarity a b =
     (if length a = length b \<and> vector_norm a \<noteq> 0 \<and> vector_norm b \<noteq> 0
      then (cosineSimilarity_spec a b + 1) / 2 else 0)"
  by (auto simp: calculateSimilarity_def cosineSimilarity_spec_def vector_norm_def Let_def dotProduct_self dotProduct_sum)

lemma length_sortedIndices: "length (sortedIndices ws) = length ws"
  by (simp add: sortedIndices_def)

lemma list3: "length xs = 3 \<Longrightarrow> \<exists>a b c. xs = [a, b, c]"
  by (auto simp: length_Suc_conv numeral_3_eq_3)

lemma interpret_total3:
  assumes "length ws = 3"
  shows "\<exists>so. interpretAsSetOperations t ws = Inr so"
proof -
  have l: "length (sortedIndices ws) = 3" using assms by (simp add: length_sortedIndices)
  then obtain s0 s1 s2 where s: "sortedIndices ws = [s0, s1, s2]"
    using list3 by blast
  have n: "js_nth [s0, s1, s2] 0 = Some s0" "js_nth [s0, s1, s2] 1 = Some s1" "js_nth [s0, s1, s2] 2 = Some s2"
    by (simp_all add: js_nth_def)
  show ?thesis
    unfolding interpretAsSetOperations_def Let_def s n
    by simp
qed

lemma make_contributions_nth:
  assumes "i < length (vertices t)"
  shows "weight (make_contributions t w s ! i) = w i" and "similarity (make_contributions t w s ! i) = s i"
  using assms by (simp_all add: make_contributions_def nth_enumerate_eq)

lemma getInteriorPointSemantics_try_unfold:
  "getInteriorPointSemantics_try t ws =
     (if length ws \<noteq> 3 \<or> length (embeddings t) \<noteq> 3
      then Inr (failed_semantics t ''unknown'' ''Could not determine semantic relationship''
                  ''Analysis failed due to invalid data'')
      else if \<bar>weight_sum ws\<bar> < 1/10000
      then Inr (failed_semantics t ''unknown'' ''Could not determine semantic relationship''
                  ''Analysis failed due to invalid weights'')
      else if length (embeddings t ! 0) = 0 \<or>
              (\<exists>e \<in> set (embeddings t). length e \<noteq> length (embeddings t ! 0))
      then Inr \<lparr>contributions = make_contributions t (js_nth (normalized ws)) (\<lambda>i. Some (1/2)),
                combinedEmbedding = [],
                setOperation =
                  \<lparr>op_type = ''unknown'',
                   description = ''Could not determine semantic relationship'',
                   conceptual = ''Analysis failed due to inconsistent embedding dimensions''\<rparr>\<rparr>
      else
        (case interpretAsSetOperations t (normalized ws) of
           Inl e \<Rightarrow> Inl e
         | Inr setOp \<Rightarrow>
             Inr \<lparr>contributions =
                    make_contributions t (js_nth (normalized ws))
                      (js_nth (map (calculateSimilarity
                         (combine (normalized ws) (embeddings t) (length (embeddings t ! 0)))) (embeddings t))),
                  combinedEmbedding = combine (normalized ws) (embeddings t) (length (embeddings t ! 0)),
                  setOperation = setOp\<rparr>))"
  unfolding getInteriorPointSemantics_try_def Let_def normalized_def weight_sum_def ..

lemma semantics_full:
  assumes "length ws = 3" "length (embeddings t) = 3" "1/10000 \<le> \<bar>weight_sum ws\<bar>"
    and "0 < length (embeddings t ! 0)"
    and "\<forall>e \<in> set (embeddings t). length e = length (embeddings t ! 0)"
  shows "\<exists>so. interpretAsSetOperations t (normalized ws) = Inr so \<and>
           getInteriorPointSemantics t ws =
           Inr \<lparr>contributions =
                  make_contributions t (js_nth (normalized ws))
                    (js_nth (map (calculateSimilarity
                       (combine (normalized ws) (embeddings t) (length (embeddings t ! 0)))) (embeddings t))),
                combinedEmbedding = combine (normalized ws) (embeddings t) (length (embeddings t ! 0)),
                setOperation = so\<rparr>"
proof -
  have "length (normalized ws) = 3"
    using assms(1) by (simp add: normalized_def)
  then obtain so where so: "interpretAsSetOperations t (normalized ws) = Inr so"
    using interpret_total3 by blast
  have ns: "\<not> \<bar>weight_sum ws\<bar> < 1/10000"
    using assms(3) by simp
  have c: "\<not> (length (embeddings t ! 0) = 0 \<or>
                (\<exists>e \<in> set (embeddings t). length e \<noteq> length (embeddings t ! 0)))"
    using assms(4,5) by blast
  have g: "\<not> (length ws \<noteq> 3 \<or> length (embeddings t) \<noteq> 3)"
    using assms(1,2) by simp
  have "getInteriorPointSemantics_try t ws =
           Inr \<lparr>contributions =
                  make_contributions t (js_nth (normalized ws))
                    (js_nth (map (calculateSimilarity
                       (combine (normalized ws) (embeddings t) (length (embeddings t ! 0)))) (embeddings t))),
                combinedEmbedding = combine (normalized ws) (embeddings t) (length (embeddings t ! 0)),
                setOperation = so\<rparr>"
    unfolding getInteriorPointSemantics_try_unfold if_not_P [OF g] if_not_P [OF ns] if_not_P [OF c] so
    by simp
  then show ?thesis
    using so by (simp add: getInteriorPointSemantics_def)
qed

lemma combine3:
  "combine [n0, n1, n2] [[a0, a1], [b0, b1], [c0, c1]] (Suc (Suc 0)) =
     [0 + n0 * a0 + n1 * b0 + n2 * c0, 0 + n0 * a1 + n1 * b1 + n2 * c1]"
  by (simp add: combine_def upt_rec numeral_2_eq_2 numeral_3_eq_3)

lemma normalized_unit: "normalized [1, 0, 0] = [1, 0, 0]"
  by (simp add: normalized_def weight_sum_def)

lemma similarity_orthogonal: "calculateSimilarity [1, 0] [0, 1] = 1/2"
  by (simp add: calculateSimilarity_def dotProduct_def)

lemma cosine_orthogonal: "cosineSimilarity_spec [1, 0] [0, 1] = 0"
  by (simp add: cosineSimilarity_spec_def vector_norm_def)

lemma triangleABC_fields:
  "length (embeddings triangleABC) = 3" "embeddings triangleABC ! 0 = [1, 0]"
  "embeddings triangleABC ! 1 = [0, 1]" "length (vertices triangleABC) = 3"
  "\<forall>e \<in> set (embeddings triangleABC). length e = length (embeddings triangleABC ! 0)"
  "embeddings triangleABC = [[1, 0], [0, 1], [1, 0]]"
  by (simp_all add: triangleABC_def)

text \<open>
  Claim C6, as amended. For weights whose sum is at least \<open>0.0001\<close> in absolute value
  and three embeddings of one positive length, the similarity reported for vertex \<open>i\<close>
  is \<^verbatim>\<open>calculateSimilarity\<close> of the combined embedding and that vertex's embedding;
  \<^verbatim>\<open>calculateSimilarity\<close> is the cosine similarity moved to the range from 0 to 1,
  \<open>(cos + 1) / 2\<close>, and is 0 when the lengths differ or one vector has norm zero.
\<close>

theorem per_vertex_similarity:
  "(length ws = 3 \<and> length (embeddings t) = 3 \<and> 1/10000 \<le> \<bar>weight_sum ws\<bar> \<and>
    0 < length (embeddings t ! 0) \<and>
    (\<forall>e \<in> set (embeddings t). length e = length (embeddings t ! 0)) \<and>
    i < 3 \<and> i < length (vertices t) \<longrightarrow>
      (\<exists>r. getInteriorPointSemantics t ws = Inr r \<and>
           combinedEmbedding r = combine (normalized ws) (embeddings t) (length (embeddings t ! 0)) \<and>
           similarity (contributions r ! i) =
             Some (calculateSimilarity (combinedEmbedding r) (embeddings t ! i)))) \<and>
   calculateSimilarity a b =
     (if length a = length b \<and> vector_norm a \<noteq> 0 \<and> vector_norm b \<noteq> 0
      then (cosineSimilarity_spec a b + 1) / 2 else 0)"
proof (intro conjI impI)
  assume h: "length ws = 3 \<and> length (embeddings t) = 3 \<and> 1/10000 \<le> \<bar>weight_sum ws\<bar> \<and>
    0 < length (embeddings t ! 0) \<and>
    (\<forall>e \<in> set (embeddings t). length e = length (embeddings t ! 0)) \<and>
    i < 3 \<and> i < length (vertices t)"
  then obtain so where r: "getInteriorPointSemantics t ws =
           Inr \<lparr>contributions =
                  make_contributions t (js_nth (normalized ws))
                    (js_nth (map (calculateSimilarity
                       (combine (normalized ws) (embeddings t) (length (embeddings t ! 0)))) (embeddings t))),
                combinedEmbedding = combine (normalized ws) (embeddings t) (length (embeddings t ! 0)),
                setOperation = so\<rparr>"
    using semantics_full [of ws t] by blast
  from h have "length (embeddings t) = 3" "i < 3" and i2: "i < length (vertices t)"
    by blast+
  then have i: "i < length (embeddings t)" "i < length (vertices t)"
    by simp_all
  have "js_nth (map (calculateSimilarity
           (combine (normalized ws) (embeddings t) (length (embeddings t ! 0)))) (embeddings t)) i =
        Some (calculateSimilarity
           (combine (normalized ws) (embeddings t) (length (embeddings t ! 0))) (embeddings t ! i))"
    using i(1) by (simp add: js_nth_def)
  then show "\<exists>r. getInteriorPointSemantics t ws = Inr r \<and>
           combinedEmbedding r = combine (normalized ws) (embeddings t) (length (embeddings t ! 0)) \<and>
           similarity (contributions r ! i) =
             Some (calculateSimilarity (combinedEmbedding r) (embeddings t ! i))"
    using r i(2) by (simp add: make_contributions_nth)
next
  show "calculateSimilarity a b =
     (if length a = length b \<and> vector_norm a \<noteq> 0 \<and> vector_norm b \<noteq> 0
      then (cosineSimilarity_spec a b + 1) / 2 else 0)"
    by (rule calculateSimilarity_cosine)
qed

theorem per_vertex_similarity_witness:
  "(\<exists>r. getInteriorPointSemantics triangleABC [1, 0, 0] = Inr r \<and>
        combinedEmbedding r = [1, 0] \<and>
        similarity (contributions r ! 1) = Some (1/2)) \<and>
   calculateSimilarity [0, 0] [0, 1] = 0"
proof -
  have h: "length [1, 0, 0 :: real] = 3 \<and> length (embeddings triangleABC) = 3 \<and>
           1/10000 \<le> \<bar>weight_sum [1, 0, 0]\<bar> \<and> 0 < length (embeddings triangleABC ! 0) \<and>
           (\<forall>e \<in> set (embeddings triangleABC). length e = length (embeddings triangleABC ! 0)) \<and>
           (1::nat) < 3 \<and> 1 < length (vertices triangleABC)"
    by (intro conjI triangleABC_fields(5)) (simp_all add: triangleABC_fields(1-4) weight_sum_def)
  have c: "combine (normalized [1, 0, 0]) (embeddings triangleABC) (length (embeddings triangleABC ! 0)) = [1, 0]"
    by (simp add: normalized_unit triangleABC_fields(6) combine3)
  have z: "vector_norm [0, 0] = 0"
    by (simp add: vector_norm_def)
  note inst = per_vertex_similarity [of "[1, 0, 0]" triangleABC 1 "[0, 0]" "[0, 1]"]
  from conjunct1 [OF inst] h obtain r where r: "getInteriorPointSemantics triangleABC [1, 0, 0] = Inr r"
    "combinedEmbedding r = combine (normalized [1, 0, 0]) (embeddings triangleABC) (length (embeddings triangleABC ! 0))"
    "similarity (contributions r ! 1) = Some (calculateSimilarity (combinedEmbedding r) (embeddings triangleABC ! 1))"
    by blast
  have "combinedEmbedding r = [1, 0]"
    using r(2) c by simp
  moreover from this have "similarity (contributions r ! 1) = Some (1/2)"
    using r(3) by (simp add: triangleABC_fields(6) similarity_orthogonal)
  moreover have "calculateSimilarity [0, 0] [0, 1] = 0"
    using conjunct2 [OF inst] z by simp
  ultimately show ?thesis
    using r(1) by blast
qed

text \<open>
  Claim C6 as stated fails: with weights \<open>[1, 0, 0]\<close> the combined embedding is that of
  A, \<open>[1, 0]\<close>; it is orthogonal to the embedding \<open>[0, 1]\<close> of B, so the cosine
  similarity is 0, and the similarity reported for B is \<open>1/2\<close>.
\<close>

theorem per_vertex_similarity_counterexample:
  "\<exists>r. getInteriorPointSemantics triangleABC [1, 0, 0] = Inr r \<and>
       similarity (contributions r ! 1) \<noteq>
         Some (cosineSimilarity_spec (combinedEmbedding r) (embeddings triangleABC ! 1))"
proof -
  have w: "1/10000 \<le> \<bar>weight_sum [1, 0, 0]\<bar>"
    by (simp add: weight_sum_def)
  have l: "length [1, 0, 0 :: real] = 3" "0 < length (embeddings triangleABC ! 0)"
    by (simp_all add: triangleABC_fields(2))
  obtain so where r: "getInteriorPointSemantics triangleABC [1, 0, 0] =
           Inr \<lparr>contributions =
                  make_contributions triangleABC (js_nth (normalized [1, 0, 0]))
                    (js_nth (map (calculateSimilarity
                       (combine (normalized [1, 0, 0]) (embeddings triangleABC)
                          (length (embeddings triangleABC ! 0)))) (embeddings triangleABC))),
                combinedEmbedding = combine (normalized [1, 0, 0]) (embeddings triangleABC)
                          (length (embeddings triangleABC ! 0)),
                setOperation = so\<rparr>"
    using semantics_full [OF l(1) triangleABC_fields(1) w l(2) triangleABC_fields(5)] by blast
  have c: "combine (normalized [1, 0, 0]) (embeddings triangleABC) (length (embeddings triangleABC ! 0)) = [1, 0]"
    by (simp add: normalized_unit triangleABC_fields(6) combine3)
  have s: "similarity (make_contributions triangleABC w' s' ! 1) = s' 1"
    for w' s' :: "nat \<Rightarrow> real option"
    by (rule make_contributions_nth) (simp add: triangleABC_fields(4))
  have n: "js_nth (map (calculateSimilarity [1, 0]) (embeddings triangleABC)) 1 = Some (1/2)"
    by (simp add: js_nth_def triangleABC_fields(6) similarity_orthogonal)
  have e: "cosineSimilarity_spec [1, 0] (embeddings triangleABC ! 1) = 0"
    by (simp add: triangleABC_fields(6) cosine_orthogonal)
  show ?thesis
    unfolding r c using s n e by simp
qed

section \<open>Embeddings of differing or missing length\<close>

lemma length_add_keyword: "length (add_keyword e i c) = length e"
proof -
  have "length (foldl (\<lambda>e j. let index = (i * 5 + j) mod length e in e[index := c * (1/10) + e ! index]) e js) = length e" for js
    by (induction js arbitrary: e) (simp_all add: Let_def)
  then show ?thesis by (simp add: add_keyword_def)
qed

lemma length_keywords_fold:
  "length (foldl (\<lambda>e (i, keyword). add_keyword e i (f keyword)) e ks) = length e"
  by (induction ks arbitrary: e) (auto simp: length_add_keyword)

lemma length_generateEmbedding: "length (generateEmbedding d) = 128"
  by (simp add: generateEmbedding_def Let_def length_keywords_fold split: option.splits)

lemma new_triangle_embeddings:
  assumes "doc_id a \<noteq> []" "doc_id b \<noteq> []" "doc_id c \<noteq> []"
  shows "\<exists>t. new_SemanticTriangle (Some a) (Some b) (Some c) = Inr t \<and> vertices t = [a, b, c] \<and>
             embeddings t = map (\<lambda>doc. case doc_embedding doc of Some e \<Rightarrow> e
                                        | None \<Rightarrow> generateEmbedding (Some doc)) [a, b, c]"
  using assms by (simp add: new_SemanticTriangle_def)

lemma semantics_mismatch:
  assumes "length ws = 3" "length (embeddings t) = 3" "1/10000 \<le> \<bar>weight_sum ws\<bar>"
    and "length (embeddings t ! 0) = 0 \<or> (\<exists>e \<in> set (embeddings t). length e \<noteq> length (embeddings t ! 0))"
  shows "getInteriorPointSemantics t ws =
           Inr \<lparr>contributions = make_contributions t (js_nth (normalized ws)) (\<lambda>i. Some (1/2)),
                combinedEmbedding = [],
                setOperation =
                  \<lparr>op_type = ''unknown'',
                   description = ''Could not determine semantic relationship'',
                   conceptual = ''Analysis failed due to inconsistent embedding dimensions''\<rparr>\<rparr>"
proof -
  have ns: "\<not> \<bar>weight_sum ws\<bar> < 1/10000"
    using assms(3) by simp
  have g: "\<not> (length ws \<noteq> 3 \<or> length (embeddings t) \<noteq> 3)"
    using assms(1,2) by simp
  show ?thesis
    unfolding getInteriorPointSemantics_def getInteriorPointSemantics_try_unfold
      if_not_P [OF g] if_not_P [OF ns] if_P [OF assms(4)]
    by simp
qed

lemma balanced_thirds:
  "\<exists>d. interpretAsSetOperations t [1/3, 1/3, 1/3] =
     Inr \<lparr>op_type = ''balanced_intersection'', description = d,
          conceptual = ''This point represents concepts that appear in all three documents with similar importance.''\<rparr>"
  by (simp add: interpretAsSetOperations_def Let_def Math_max_def Math_min_def HIGH_def LOW_def)

lemma generateEmbedding_no_content:
  "doc_content d = [] \<Longrightarrow> generateEmbedding (Some d) = replicate 128 0"
  by (simp add: generateEmbedding_def)

lemma triangleADE_constructed:
  "new_SemanticTriangle (Some docA) (Some docD) (Some docE) = Inr triangleADE"
  by (simp add: new_SemanticTriangle_def triangleADE_def generateEmbedding_no_content
      docA_def docD_def docE_def)

lemma triangleEFG_constructed:
  "new_SemanticTriangle (Some docE) (Some docF) (Some docG) = Inr triangleEFG"
  by (simp add: new_SemanticTriangle_def triangleEFG_def generateEmbedding_no_content
      docE_def docF_def docG_def)

lemma thirds: "length [1/3, 1/3, 1/3 :: real] = 3" "1/10000 \<le> \<bar>weight_sum [1/3, 1/3, 1/3]\<bar>"
  "normalized [1/3, 1/3, 1/3] = [1/3, 1/3, 1/3]"
  by (simp_all add: weight_sum_def normalized_def)

lemma triangleADE_fields:
  "length (embeddings triangleADE) = 3"
  "length (embeddings triangleADE ! 0) = 0 \<or>
   (\<exists>e \<in> set (embeddings triangleADE). length e \<noteq> length (embeddings triangleADE ! 0))"
  by (simp_all add: triangleADE_def)

lemma triangleEFG_fields:
  "length (embeddings triangleEFG) = 3"
  "0 < length (embeddings triangleEFG ! 0)"
  "\<forall>e \<in> set (embeddings triangleEFG). length e = length (embeddings triangleEFG ! 0)"
  by (simp_all add: triangleEFG_def)

text \<open>
  Claim C7, as amended. When the three embeddings do not have one positive length,
  \<^verbatim>\<open>getInteriorPointSemantics\<close> does not fail: it returns a result of type
  \<open>unknown\<close> with an empty combined embedding, the normalised weights and the similarity
  \<open>0.5\<close> for every vertex. A missing embedding never reaches that test: the constructor
  replaces it by \<^verbatim>\<open>generateEmbedding(doc)\<close>, a vector of 128 components.
\<close>

theorem mismatch_returns_unknown:
  "(length ws = 3 \<and> length (embeddings t) = 3 \<and> 1/10000 \<le> \<bar>weight_sum ws\<bar> \<and>
    (length (embeddings t ! 0) = 0 \<or>
     (\<exists>e \<in> set (embeddings t). length e \<noteq> length (embeddings t ! 0))) \<longrightarrow>
      getInteriorPointSemantics t ws =
        Inr \<lparr>contributions = make_contributions t (js_nth (normalized ws)) (\<lambda>i. Some (1/2)),
             combinedEmbedding = [],
             setOperation =
               \<lparr>op_type = ''unknown'',
                description = ''Could not determine semantic relationship'',
                conceptual = ''Analysis failed due to inconsistent embedding dimensions''\<rparr>\<rparr>) \<and>
   (doc_id a \<noteq> [] \<and> doc_id b \<noteq> [] \<and> doc_id c \<noteq> [] \<longrightarrow>
      (\<exists>t'. new_SemanticTriangle (Some a) (Some b) (Some c) = Inr t' \<and>
            embeddings t' = map (\<lambda>doc. case doc_embedding doc of Some e \<Rightarrow> e
                                        | None \<Rightarrow> generateEmbedding (Some doc)) [a, b, c])) \<and>
   length (generateEmbedding d) = 128"
proof (intro conjI impI)
  assume "length ws = 3 \<and> length (embeddings t) = 3 \<and> 1/10000 \<le> \<bar>weight_sum ws\<bar> \<and>
    (length (embeddings t ! 0) = 0 \<or>
     (\<exists>e \<in> set (embeddings t). length e \<noteq> length (embeddings t ! 0)))"
  then show "getInteriorPointSemantics t ws =
        Inr \<lparr>contributions = make_contributions t (js_nth (normalized ws)) (\<lambda>i. Some (1/2)),
             combinedEmbedding = [],
             setOperation =
               \<lparr>op_type = ''unknown'',
                description = ''Could not determine semantic relationship'',
                conceptual = ''Analysis failed due to inconsistent embedding dimensions''\<rparr>\<rparr>"
    using semantics_mismatch [of ws t] by blast
next
  assume "doc_id a \<noteq> [] \<and> doc_id b \<noteq> [] \<and> doc_id c \<noteq> []"
  then show "\<exists>t'. new_SemanticTriangle (Some a) (Some b) (Some c) = Inr t' \<and>
            embeddings t' = map (\<lambda>doc. case doc_embedding doc of Some e \<Rightarrow> e
                                        | None \<Rightarrow> generateEmbedding (Some doc)) [a, b, c]"
    using new_triangle_embeddings [of a b c] by blast
next
  show "length (generateEmbedding d) = 128"
    by (rule length_generateEmbedding)
qed

theorem mismatch_returns_unknown_witness:
  "new_SemanticTriangle (Some docA) (Some docD) (Some docE) = Inr triangleADE \<and>
   getInteriorPointSemantics triangleADE [1/3, 1/3, 1/3] =
     Inr \<lparr>contributions =
            [\<lparr>c_id = ''a'', c_title = ''A'', weight = Some (1/3), similarity = Some (1/2)\<rparr>,
             \<lparr>c_id = ''d'', c_title = ''D'', weight = Some (1/3), similarity = Some (1/2)\<rparr>,
             \<lparr>c_id = ''e'', c_title = ''e'', weight = Some (1/3), similarity = Some (1/2)\<rparr>],
          combinedEmbedding = [],
          setOperation =
            \<lparr>op_type = ''unknown'',
             description = ''Could not determine semantic relationship'',
             conceptual = ''Analysis failed due to inconsistent embedding dimensions''\<rparr>\<rparr>"
proof -
  have h: "length [1/3, 1/3, 1/3 :: real] = 3 \<and> length (embeddings triangleADE) = 3 \<and>
           1/10000 \<le> \<bar>weight_sum [1/3, 1/3, 1/3]\<bar> \<and>
           (length (embeddings triangleADE ! 0) = 0 \<or>
            (\<exists>e \<in> set (embeddings triangleADE). length e \<noteq> length (embeddings triangleADE ! 0)))"
    using thirds(1,2) triangleADE_fields by blast
  have m: "make_contributions triangleADE (js_nth [1/3, 1/3, 1/3]) (\<lambda>i. Some (1/2)) =
            [\<lparr>c_id = ''a'', c_title = ''A'', weight = Some (1/3), similarity = Some (1/2)\<rparr>,
             \<lparr>c_id = ''d'', c_title = ''D'', weight = Some (1/3), similarity = Some (1/2)\<rparr>,
             \<lparr>c_id = ''e'', c_title = ''e'', weight = Some (1/3), similarity = Some (1/2)\<rparr>]"
    by (simp add: make_contributions_def triangleADE_def docA_def docD_def docE_def js_nth_def)
  show ?thesis
    using conjunct1 [OF mismatch_returns_unknown [of "[1/3, 1/3, 1/3]" triangleADE docA docD docE None]] h
      triangleADE_constructed
    by (simp only: thirds(3) m)
qed

text \<open>
  Claim C7 as stated fails. The embeddings of A, D and E have 2, 3 and 128 components
  (E has none of its own): the analysis returns a result, of type \<open>unknown\<close>, and no
  failure. E, F and G have no embedding at all: the analysis returns a result of type
  \<open>balanced_intersection\<close>.
\<close>

theorem dimension_mismatch_counterexample:
  "new_SemanticTriangle (Some docA) (Some docD) (Some docE) = Inr triangleADE \<and>
   (\<exists>r. getInteriorPointSemantics triangleADE [1/3, 1/3, 1/3] = Inr r \<and>
        op_type (setOperation r) = ''unknown'') \<and>
   new_SemanticTriangle (Some docE) (Some docF) (Some docG) = Inr triangleEFG \<and>
   (\<exists>r. getInteriorPointSemantics triangleEFG [1/3, 1/3, 1/3] = Inr r \<and>
        op_type (setOperation r) = ''balanced_intersection'')"
proof -
  have 1: "\<exists>r. getInteriorPointSemantics triangleADE [1/3, 1/3, 1/3] = Inr r \<and>
        op_type (setOperation r) = ''unknown''"
    using semantics_mismatch [OF thirds(1) triangleADE_fields(1) thirds(2) triangleADE_fields(2)]
    by simp
  obtain so where so: "interpretAsSetOperations triangleEFG (normalized [1/3, 1/3, 1/3]) = Inr so"
    and r: "\<exists>r. getInteriorPointSemantics triangleEFG [1/3, 1/3, 1/3] = Inr r \<and> setOperation r = so"
    using semantics_full [OF thirds(1) triangleEFG_fields(1) thirds(2) triangleEFG_fields(2,3)]
    by force
  have "op_type so = ''balanced_intersection''"
    using so balanced_thirds [of triangleEFG] unfolding thirds(3) by force
  then have 2: "\<exists>r. getInteriorPointSemantics triangleEFG [1/3, 1/3, 1/3] = Inr r \<and>
        op_type (setOperation r) = ''balanced_intersection''"
    using r by blast
  show ?thesis
    using 1 2 triangleADE_constructed triangleEFG_constructed by blast
qed

section \<open>The tessellation: building, locating, analysing\<close>

lemma buildTriangulation_returns: "\<exists>t'. buildTriangulation from this = Inr t'"
  by (simp add: buildTriangulation_def split: prod.splits option.splits)

lemma length_placed_points: "length (placed_points coords docs) \<le> length docs"
  by (simp add: placed_points_def map_filter_def)

lemma build_too_few:
  assumes "coordinates this = None \<or>
           length (filter (valid_document (the (coordinates this))) (documents this)) < 3 \<or>
           length (placed_points (the (coordinates this))
                     (filter (valid_document (the (coordinates this))) (documents this))) < 3"
  shows "\<exists>t'. buildTriangulation from this = Inr t' \<and> \<not> initialized t'"
proof -
  have "length (filter (valid_document (the (coordinates this))) (documents this)) \<le> length (documents this)"
    by simp
  then show ?thesis
    using assms by (auto simp: buildTriangulation_def buildTriangulation_try_def Let_def)
qed

lemma manual_invariant:
  assumes "length (documents this) \<le> 3" "delaunay this = None"
    and "buildTriangulation from this = Inr t'"
  shows "delaunay t' = None \<and> (initialized t' \<longrightarrow> useManualTriangulation t' \<and> coordinates t' \<noteq> None)"
proof -
  have f: "length (filter (valid_document c) (documents this)) \<le> 3" for c
    using assms(1) by (meson le_trans length_filter_le)
  show ?thesis
    using assms(2,3) f
    by (auto simp: buildTriangulation_def buildTriangulation_try_def Let_def
        split: if_splits sum.splits prod.splits option.splits)
qed

lemma find_without_delaunay:
  assumes "delaunay t = None" "initialized t \<longrightarrow> coordinates t \<noteq> None"
  shows "findContainingTriangle t p = Inr None"
  using assms
  by (auto simp: findContainingTriangle_def delaunay_lookup_def vertex_coordinates_def
      split: option.splits sum.splits)

lemma ids:
  "doc_id docA = ''a''" "doc_id docB = ''b''" "doc_id docC = ''c''" "doc_id docH = ''h''"
  "doc_id docP = ''__defineGetter__''" "doc_id docQ = ''constructor''"
  by (simp_all add: docA_def docB_def docC_def docH_def docP_def docQ_def)

lemma lookup3:
  "coordinate_lookup coords3 ''a'' = Some (Point (0, 0))"
  "coordinate_lookup coords3 ''b'' = Some (Point (4, 0))"
  "coordinate_lookup coords3 ''c'' = Some (Point (0, 4))"
  "coordinate_lookup coords3 ''__defineGetter__'' = Some (Member ''__defineGetter__'')"
  "coordinate_lookup coords3 ''constructor'' = Some (Member ''constructor'')"
  by (simp_all add: coordinate_lookup_def coords3_def object_prototype_def)

lemma lookup4_at:
  "coordinate_lookup coords4 ''a'' = Some (Point (0, 0))"
  "coordinate_lookup coords4 ''b'' = Some (Point (4, 0))"
  "coordinate_lookup coords4 ''c'' = Some (Point (0, 4))"
  "coordinate_lookup coords4 ''h'' = Some (Point (5, 5))"
  by (simp_all add: coordinate_lookup_def coords4_def)

lemma lengths:
  "coordinate_length (Point p) = Some 2"
  "coordinate_length (Member ''__defineGetter__'') = Some 2"
  "coordinate_length (Member ''constructor'') = Some 1"
  by (simp_all add: coordinate_length_def object_prototype_def)

lemma valid3:
  "valid_document coords3 (Some docA)" "valid_document coords3 (Some docB)"
  "valid_document coords3 (Some docC)" "valid_document coords3 (Some docP)"
  "valid_document coords3 (Some docQ)"
  by (simp_all add: valid_document_def ids lookup3)

lemma valid4:
  "valid_document coords4 (Some docA)" "valid_document coords4 (Some docB)"
  "valid_document coords4 (Some docC)" "valid_document coords4 (Some docH)"
  by (simp_all add: valid_document_def ids lookup4_at)

lemma build3:
  "buildTriangulation from (new_SemanticTessellation [Some docA, Some docB, Some docC] (Some coords3)) =
     Inr tessellation3"
  by (simp add: buildTriangulation_def buildTriangulation_try_def new_SemanticTessellation_def Let_def
      valid3 placed_points_def ids lookup3 lengths document_at_def js_nth_def triangleABC_constructed
      tessellation3_def)

lemma triangleBHC_constructed:
  "new_SemanticTriangle (Some docB) (Some docH) (Some docC) = Inr triangleBHC"
  by (simp add: new_SemanticTriangle_def triangleBHC_def docB_def docH_def docC_def)

lemma build4:
  "buildTriangulation from4
     (new_SemanticTessellation [Some docA, Some docB, Some docC, Some docH] (Some coords4)) =
     Inr tessellation4"
  by (simp add: buildTriangulation_def buildTriangulation_try_def new_SemanticTessellation_def Let_def
      valid4 placed_points_def ids lookup4_at lengths from4_def point_of_def tessellation4_def
      delaunay4_def document_at_def js_nth_def triangleABC_constructed triangleBHC_constructed)

lemma closest_inside: "closest_index [(0, 0), (4, 0), (0, 4), (5, 5)] 1 1 = 0"
  by (simp add: closest_index_def dist2_def)

lemma closest_outside: "closest_index [(0, 0), (4, 0), (0, 4), (5, 5)] (-5) (-5) = 0"
  by (simp add: closest_index_def dist2_def)

lemma matches_ABC:
  "matches_indices tessellation4 [Some 0, Some 1, Some 2] triangleABC"
  by (simp add: matches_indices_def tessellation4_def document_at_def js_nth_def triangleABC_def ids)

lemma lookup4:
  assumes "closest_index [(0, 0), (4, 0), (0, 4), (5, 5)] (fst p) (snd p) = 0"
  shows "findContainingTriangle tessellation4 (Some p) = Inr (Some triangleABC)"
proof -
  have t: "initialized tessellation4" "\<not> useManualTriangulation tessellation4"
    "delaunay tessellation4 = Some delaunay4" "triangles tessellation4 = [triangleABC, triangleBHC]"
    by (simp_all add: tessellation4_def)
  have d: "d_find delaunay4 (fst p) (snd p) = 0" "d_triangles delaunay4 = [0, 1, 2, 1, 3, 2]"
    using assms by (simp_all add: delaunay4_def)
  have m: "matches_indices tessellation4 [Some 0, Some (Suc 0), Some 2] triangleABC"
    using matches_ABC by simp
  show ?thesis
    by (simp add: findContainingTriangle_def delaunay_lookup_def t d index_at_def js_nth_def m Let_def)
qed

lemma inside3: "isPointInside (Some (1, 1)) (Some [(0, 0), (4, 0), (0, 4)])"
  by (simp add: isPointInside_def calculateBarycentricCoordinates_def Let_def)

lemma weights_inside:
  "calculateBarycentricCoordinates (Some (1, 1)) (Some [(0, 0), (4, 0), (0, 4)]) = [1/2, 1/4, 1/4]"
  by (simp add: calculateBarycentricCoordinates_def Let_def)

lemma vertex_coordinates4:
  "vertex_coordinates tessellation4 triangleABC = Inr [Point (0, 0), Point (4, 0), Point (0, 4)]"
  by (simp add: vertex_coordinates_def tessellation4_def triangleABC_def ids lookup4_at)

lemma getInteriorPointSemantics_returns: "\<exists>r. getInteriorPointSemantics t ws = Inr r"
  by (simp add: getInteriorPointSemantics_def split: sum.splits)

lemma analyze4:
  "\<exists>sem. analyzePoint tessellation4 (Some (1, 1)) =
     Inr (Some \<lparr>a_triangle = triangleABC, a_weights = [Fin (1/2), Fin (1/4), Fin (1/4)],
                a_semantics = sem, a_point = (1, 1)\<rparr>)"
proof -
  obtain sem where s: "getInteriorPointSemantics triangleABC [1/2, 1/4, 1/4] = Inr sem"
    using getInteriorPointSemantics_returns by blast
  have f: "findContainingTriangle tessellation4 (Some (1, 1)) = Inr (Some triangleABC)"
    by (rule lookup4) (simp add: closest_inside)
  have i: "initialized tessellation4"
    by (simp add: tessellation4_def)
  have "analyzePoint tessellation4 (Some (1, 1)) =
     Inr (Some \<lparr>a_triangle = triangleABC, a_weights = [Fin (1/2), Fin (1/4), Fin (1/4)],
                a_semantics = lift_semantics sem, a_point = (1, 1)\<rparr>)"
    by (simp add: analyzePoint_def analyzePoint_try_def i f vertex_coordinates4 point_of_def
        weights_inside s)
  then show ?thesis by blast
qed

lemma find_throws:
  "findContainingTriangle (tessellation3\<lparr>coordinates := None\<rparr>) (Some (1, 1)) =
     Inl (TypeError ''Cannot read properties of null'')"
  by (simp add: findContainingTriangle_def tessellation3_def js_nth_def vertex_coordinates_def triangleABC_def)

text \<open>
  A triangle with a vertex whose id names a member of \<^verbatim>\<open>Object.prototype\<close>: the
  analysis returns three NaN weights, NaN similarities and the default classification.
\<close>

lemma analyze_inherited_vertex:
  "analyzePoint
     (tessellation4\<lparr>documents := [Some docA, Some docB, Some docP, Some docH],
                    triangles := [triangleABP]\<rparr>) (Some (1, 1)) =
     Inr (Some \<lparr>a_triangle = triangleABP, a_weights = [NaN, NaN, NaN],
                a_semantics =
                  \<lparr>contributions =
                     [\<lparr>c_id = ''a'', c_title = ''A'', weight = Some NaN, similarity = Some NaN\<rparr>,
                      \<lparr>c_id = ''b'', c_title = ''B'', weight = Some NaN, similarity = Some NaN\<rparr>,
                      \<lparr>c_id = ''__defineGetter__'', c_title = ''P'', weight = Some NaN, similarity = Some NaN\<rparr>],
                   combinedEmbedding = [NaN, NaN],
                   setOperation = complex_weighted_combination\<rparr>,
                a_point = (1, 1)\<rparr>)"
proof -
  let ?t = "tessellation4\<lparr>documents := [Some docA, Some docB, Some docP, Some docH],
                          triangles := [triangleABP]\<rparr>"
  have m: "matches_indices ?t [Some 0, Some (Suc 0), Some 2] triangleABP"
    by (simp add: matches_indices_def tessellation4_def document_at_def js_nth_def triangleABP_def ids)
  have t: "initialized ?t" "\<not> useManualTriangulation ?t" "delaunay ?t = Some delaunay4"
    "triangles ?t = [triangleABP]"
    by (simp_all add: tessellation4_def)
  have d: "d_find delaunay4 (fst (1, 1)) (snd (1, 1)) = 0" "d_triangles delaunay4 = [0, 1, 2, 1, 3, 2]"
    by (simp_all add: delaunay4_def closest_inside)
  have f: "findContainingTriangle ?t (Some (1, 1)) = Inr (Some triangleABP)"
    using d(1)
    by (simp add: findContainingTriangle_def delaunay_lookup_def t d(2) index_at_def js_nth_def m Let_def)
  have v: "vertex_coordinates ?t triangleABP = Inr [Point (0, 0), Point (4, 0), Member ''__defineGetter__'']"
    by (simp add: vertex_coordinates_def tessellation4_def triangleABP_def ids lookup4_at
        coordinate_lookup_def coords4_def object_prototype_def)
  have s: "getInteriorPointSemantics_NaN triangleABP =
             \<lparr>contributions =
                [\<lparr>c_id = ''a'', c_title = ''A'', weight = Some NaN, similarity = Some NaN\<rparr>,
                 \<lparr>c_id = ''b'', c_title = ''B'', weight = Some NaN, similarity = Some NaN\<rparr>,
                 \<lparr>c_id = ''__defineGetter__'', c_title = ''P'', weight = Some NaN, similarity = Some NaN\<rparr>],
              combinedEmbedding = [NaN, NaN],
              setOperation = complex_weighted_combination\<rparr>"
    by (simp add: getInteriorPointSemantics_NaN_def triangleABP_def make_contributions_def js_nth_def
        dotProduct_def docA_def docB_def docP_def numeral_2_eq_2)
  show ?thesis
    by (simp add: analyzePoint_def analyzePoint_try_def t(1) f v point_of_def s)
qed

text \<open>
  Claim C10. For every tessellation state and every point (also a missing one),
  \<^verbatim>\<open>analyzePoint\<close> returns and does not throw; the result is \<^verbatim>\<open>null\<close> or an object
  whose \<^verbatim>\<open>weights\<close> have exactly three entries.
\<close>

theorem analyzePoint_total:
  "\<exists>r. analyzePoint this point = Inr r \<and>
       (case r of None \<Rightarrow> True | Some a \<Rightarrow> length (a_weights a) = 3)"
  by (auto simp: analyzePoint_def analyzePoint_try_def Let_def split: option.splits sum.splits if_splits)

theorem analyzePoint_total_witness:
  "(\<exists>a. analyzePoint tessellation4 (Some (1, 1)) = Inr (Some a) \<and> a_triangle a = triangleABC \<and>
        length (a_weights a) = 3) \<and>
   findContainingTriangle (tessellation3\<lparr>coordinates := None\<rparr>) (Some (1, 1)) =
     Inl (TypeError ''Cannot read properties of null'') \<and>
   analyzePoint (tessellation3\<lparr>coordinates := None\<rparr>) (Some (1, 1)) = Inr None"
proof -
  obtain r where r: "analyzePoint tessellation4 (Some (1, 1)) = Inr r"
    "case r of None \<Rightarrow> True | Some a \<Rightarrow> length (a_weights a) = 3"
    using analyzePoint_total [of tessellation4 "Some (1, 1)"] by blast
  obtain a where a: "r = Some a" "a_triangle a = triangleABC"
    using analyze4 r(1) by auto
  have "length (a_weights a) = 3"
    using r(2) a(1) by simp
  moreover have "analyzePoint (tessellation3\<lparr>coordinates := None\<rparr>) (Some (1, 1)) = Inr None"
    by (simp add: analyzePoint_def analyzePoint_try_def find_throws)
  ultimately show ?thesis
    using r(1) a find_throws by blast
qed

lemma triangleABP_constructed:
  "new_SemanticTriangle (Some docA) (Some docB) (Some docP) = Inr triangleABP"
  by (simp add: new_SemanticTriangle_def triangleABP_def docA_def docB_def docP_def)

text \<open>
  A document whose id names a member of \<^verbatim>\<open>Object.prototype\<close> passes the filter without
  a coordinate of its own. The function \<^verbatim>\<open>__defineGetter__\<close> has length 2, so the
  document is placed as well and the tessellation is initialized.
\<close>

lemma inherited_member_is_placed:
  "\<exists>t'. buildTriangulation from (new_SemanticTessellation [Some docA, Some docB, Some docP] (Some coords3)) =
          Inr t' \<and>
        initialized t' \<and> useManualTriangulation t' \<and>
        pointToDocumentMap t' (Member ''__defineGetter__'') = Some docP"
  by (simp add: buildTriangulation_def buildTriangulation_try_def new_SemanticTessellation_def Let_def
      valid3 placed_points_def ids lookup3 lengths document_at_def js_nth_def triangleABP_constructed)

text \<open>
  Claim C8, as amended. \<^verbatim>\<open>buildTriangulation\<close> never throws, whatever the Delaunay
  library does. When the coordinates are missing, when fewer than three documents pass
  the filter, or when fewer than three of those have a point of length 2, the
  tessellation it returns has \<open>initialized = false\<close>. It carries no reason: the object
  has no such property.
\<close>

theorem buildTriangulation_soft_failure:
  "\<exists>t'. buildTriangulation from this = Inr t' \<and>
        (coordinates this = None \<or>
         length (filter (valid_document (the (coordinates this))) (documents this)) < 3 \<or>
         length (placed_points (the (coordinates this))
                   (filter (valid_document (the (coordinates this))) (documents this))) < 3 \<longrightarrow>
           \<not> initialized t' \<and> reason t' = None)"
proof (cases "coordinates this = None \<or>
         length (filter (valid_document (the (coordinates this))) (documents this)) < 3 \<or>
         length (placed_points (the (coordinates this))
                   (filter (valid_document (the (coordinates this))) (documents this))) < 3")
  case True
  then show ?thesis
    using build_too_few [of this "from"] by (auto simp: reason_def)
next
  case False
  then show ?thesis
    using buildTriangulation_returns [of "from" this] by blast
qed

theorem buildTriangulation_soft_failure_witness:
  "initialized (tessellation4\<lparr>documents := [Some docA, Some docB]\<rparr>) \<and>
   length (filter (valid_document coords4) [Some docA, Some docB]) < 3 \<and>
   (\<exists>t'. buildTriangulation from4 (tessellation4\<lparr>documents := [Some docA, Some docB]\<rparr>) = Inr t' \<and>
         \<not> initialized t' \<and> reason t' = None) \<and>
   length (filter (valid_document coords3) [Some docA, Some docB, Some docQ]) = 3 \<and>
   length (placed_points coords3 (filter (valid_document coords3) [Some docA, Some docB, Some docQ])) < 3 \<and>
   (\<exists>t'. buildTriangulation from4
           (new_SemanticTessellation [Some docA, Some docB, Some docQ] (Some coords3)) = Inr t' \<and>
         \<not> initialized t' \<and> reason t' = None)"
proof -
  have c: "coordinates (tessellation4\<lparr>documents := [Some docA, Some docB]\<rparr>) = Some coords4"
    "documents (tessellation4\<lparr>documents := [Some docA, Some docB]\<rparr>) = [Some docA, Some docB]"
    "initialized (tessellation4\<lparr>documents := [Some docA, Some docB]\<rparr>)"
    by (simp_all add: tessellation4_def)
  have l: "length (filter (valid_document coords4) [Some docA, Some docB]) < 3"
    by simp
  have 1: "\<exists>t'. buildTriangulation from4 (tessellation4\<lparr>documents := [Some docA, Some docB]\<rparr>) = Inr t' \<and>
         \<not> initialized t' \<and> reason t' = None"
    using buildTriangulation_soft_failure
      [of from4 "tessellation4\<lparr>documents := [Some docA, Some docB]\<rparr>"] l
    unfolding c(1,2) by auto
  have n: "coordinates (new_SemanticTessellation [Some docA, Some docB, Some docQ] (Some coords3)) = Some coords3"
    "documents (new_SemanticTessellation [Some docA, Some docB, Some docQ] (Some coords3)) =
       [Some docA, Some docB, Some docQ]"
    by (simp_all add: new_SemanticTessellation_def)
  have f: "filter (valid_document coords3) [Some docA, Some docB, Some docQ] = [Some docA, Some docB, Some docQ]"
    by (simp add: valid3)
  have p: "length (placed_points coords3 [Some docA, Some docB, Some docQ]) < 3"
    by (simp add: placed_points_def ids lookup3 lengths)
  have p': "length (placed_points coords3
                 (filter (valid_document coords3) [Some docA, Some docB, Some docQ])) < 3"
    using p by (simp only: f)
  have 2: "\<exists>t'. buildTriangulation from4
           (new_SemanticTessellation [Some docA, Some docB, Some docQ] (Some coords3)) = Inr t' \<and>
         \<not> initialized t' \<and> reason t' = None"
    using buildTriangulation_soft_failure
      [of from4 "new_SemanticTessellation [Some docA, Some docB, Some docQ] (Some coords3)"] p'
    unfolding n option.sel by blast
  have f3: "length (filter (valid_document coords3) [Some docA, Some docB, Some docQ]) = 3"
    by (simp only: f) simp
  show ?thesis
    using c(3) l 1 2 p' f3 by blast
qed

text \<open>
  Claim C8 as stated fails: built from the two documents A and B, the tessellation
  carries neither \<open>insufficient_points\<close> nor \<open>degenerate_geometry\<close> as its reason.
\<close>

theorem reason_string_counterexample:
  "\<not> (\<exists>t' r. buildTriangulation from4 (new_SemanticTessellation [Some docA, Some docB] (Some coords3)) = Inr t' \<and>
             reason t' = Some r \<and> (r = ''insufficient_points'' \<or> r = ''degenerate_geometry''))"
  by (simp add: reason_def)

text \<open>
  Claim C1 fails on the code. A tessellation constructed from three documents and
  built never has a Delaunay object, so \<^verbatim>\<open>findContainingTriangle\<close> returns \<^verbatim>\<open>null\<close>
  for every point, whatever its barycentric weights are.
\<close>

theorem single_triangle_never_found:
  "length docs = 3 \<and> buildTriangulation from (new_SemanticTessellation docs coords) = Inr t \<longrightarrow>
     findContainingTriangle t p = Inr None"
proof
  assume h: "length docs = 3 \<and> buildTriangulation from (new_SemanticTessellation docs coords) = Inr t"
  have "length (documents (new_SemanticTessellation docs coords)) \<le> 3"
    "delaunay (new_SemanticTessellation docs coords) = None"
    using h by (simp_all add: new_SemanticTessellation_def)
  then have "delaunay t = None \<and> (initialized t \<longrightarrow> useManualTriangulation t \<and> coordinates t \<noteq> None)"
    using manual_invariant h by blast
  then show "findContainingTriangle t p = Inr None"
    using find_without_delaunay by blast
qed

text \<open>
  The documents A, B, C at \<open>(0,0)\<close>, \<open>(4,0)\<close>, \<open>(0,4)\<close>: the point \<open>(1,1)\<close> has the
  weights \<open>[1/2, 1/4, 1/4]\<close>, \<^verbatim>\<open>isPointInside\<close> holds, and the triangle is not found.
\<close>

theorem single_triangle_never_found_witness:
  "buildTriangulation from4 (new_SemanticTessellation [Some docA, Some docB, Some docC] (Some coords3)) =
     Inr tessellation3 \<and>
   initialized tessellation3 \<and>
   vertex_coordinates tessellation3 triangleABC = Inr [Point (0, 0), Point (4, 0), Point (0, 4)] \<and>
   calculateBarycentricCoordinates (Some (1, 1)) (Some [(0, 0), (4, 0), (0, 4)]) = [1/2, 1/4, 1/4] \<and>
   isPointInside (Some (1, 1)) (Some [(0, 0), (4, 0), (0, 4)]) \<and>
   findContainingTriangle tessellation3 (Some (1, 1)) = Inr None"
proof -
  have v: "vertex_coordinates tessellation3 triangleABC = Inr [Point (0, 0), Point (4, 0), Point (0, 4)]"
    by (simp add: vertex_coordinates_def tessellation3_def triangleABC_def ids lookup3)
  have i: "initialized tessellation3"
    by (simp add: tessellation3_def)
  have l: "length [Some docA, Some docB, Some docC] = 3"
    by simp
  show ?thesis
    using single_triangle_never_found
      [of "[Some docA, Some docB, Some docC]" from4 "Some coords3" tessellation3 "Some (1, 1)"]
      build3 [of from4] l v i inside3 weights_inside
    by blast
qed

lemma lookup_by_index:
  assumes "initialized this" "\<not> useManualTriangulation this" "delaunay this = Some d"
    and "d_find d (fst p) (snd p) = k" "k \<noteq> -1"
  shows "findContainingTriangle this (Some p) =
           Inr (find (matches_indices this
                  [index_at (d_triangles d) (k * 3), index_at (d_triangles d) (k * 3 + 1),
                   index_at (d_triangles d) (k * 3 + 2)]) (triangles this))"
  using assms by (simp add: findContainingTriangle_def delaunay_lookup_def Let_def)

text \<open>
  Claim C5 fails on the code. On the Delaunay path the result is determined by the
  number \<open>k\<close> that \<^verbatim>\<open>delaunay.find\<close> returns, read as a triangle index: unless it is
  \<open>-1\<close>, the first stored triangle whose vertices carry the three documents indexed by
  \<^verbatim>\<open>triangles[3k .. 3k+2]\<close> is returned, wherever the point lies.
\<close>

theorem lookup_follows_find_index:
  "initialized this \<and> \<not> useManualTriangulation this \<and> delaunay this = Some d \<and>
   d_find d (fst p) (snd p) = k \<and> k \<noteq> -1 \<longrightarrow>
     findContainingTriangle this (Some p) =
       Inr (find (matches_indices this
              [index_at (d_triangles d) (k * 3), index_at (d_triangles d) (k * 3 + 1),
               index_at (d_triangles d) (k * 3 + 2)]) (triangles this))"
  using lookup_by_index by blast

text \<open>
  Four documents at \<open>(0,0)\<close>, \<open>(4,0)\<close>, \<open>(0,4)\<close>, \<open>(5,5)\<close>, with \<^verbatim>\<open>find\<close> the
  closest-point search of d3-delaunay: the point \<open>(-5,-5)\<close> lies in neither triangle,
  \<^verbatim>\<open>find\<close> returns the index 0 of the closest document, and the triangle \<open>a b c\<close> is
  returned.
\<close>

theorem lookup_follows_find_index_witness:
  "buildTriangulation from4
     (new_SemanticTessellation [Some docA, Some docB, Some docC, Some docH] (Some coords4)) =
     Inr tessellation4 \<and>
   \<not> isPointInside (Some (-5, -5)) (Some [(0, 0), (4, 0), (0, 4)]) \<and>
   \<not> isPointInside (Some (-5, -5)) (Some [(4, 0), (5, 5), (0, 4)]) \<and>
   d_find delaunay4 (-5) (-5) = 0 \<and>
   findContainingTriangle tessellation4 (Some (-5, -5)) = Inr (Some triangleABC)"
proof -
  have t: "initialized tessellation4 \<and> \<not> useManualTriangulation tessellation4 \<and>
           delaunay tessellation4 = Some delaunay4"
    by (simp add: tessellation4_def)
  have d: "d_find delaunay4 (fst (-5, -5)) (snd (-5, -5)) = 0"
    by (simp add: delaunay4_def closest_outside)
  have m: "find (matches_indices tessellation4
              [index_at (d_triangles delaunay4) (0 * 3), index_at (d_triangles delaunay4) (0 * 3 + 1),
               index_at (d_triangles delaunay4) (0 * 3 + 2)]) (triangles tessellation4) = Some triangleABC"
    using matches_ABC by (simp add: delaunay4_def index_at_def js_nth_def tessellation4_def)
  have o: "\<not> isPointInside (Some (-5, -5)) (Some [(0, 0), (4, 0), (0, 4)])"
    "\<not> isPointInside (Some (-5, -5)) (Some [(4, 0), (5, 5), (0, 4)])"
    by (simp_all add: isPointInside_def calculateBarycentricCoordinates_def Let_def)
  have "findContainingTriangle tessellation4 (Some (-5, -5)) = Inr (Some triangleABC)"
    using lookup_follows_find_index [of tessellation4 delaunay4 "(-5, -5)" 0] t d m by simp
  then show ?thesis
    using build4 o d by simp
qed

end
